theory Spec2Isabelle
  imports Complex_Main "HOL-Library.Monad_Syntax"
begin

section \<open>Numbers and fixed-point values\<close>

text \<open>
  A JavaScript \<^verbatim>\<open>number\<close> is a double, and every finite double is a rational, so \<open>number\<close>
  is the type of the rationals. The conversions of the coordinate system are given twice
  below: with exact arithmetic, as the drawing functions use them, which only pass the
  converted coordinates on to the raster context, and with the rounding of every
  operation as a parameter, for the way from world space to screen space and back.
\<close>

type_synonym number = rat

text \<open>
  Modelled from the spec: the classes \<^verbatim>\<open>Fixed\<close>, \<^verbatim>\<open>FixedVector2\<close> and \<^verbatim>\<open>FixedRect\<close> come
  from the package \<^verbatim>\<open>@esengine/nova-ecs-math\<close>, which is not part of the sources. The
  specification says that arithmetic between fixed-point values is exact, so a
  \<^verbatim>\<open>Fixed\<close> is modelled by the rational it denotes, and the operations below are exact.
  The constructor \<^verbatim>\<open>new Fixed(n)\<close> and the division, which must round, are found in the
  section on rounding.
\<close>

type_synonym Fixed = rat

definition toNumber :: "Fixed \<Rightarrow> number" where
  "toNumber f = f"

definition Fixed_ZERO :: Fixed where
  "Fixed_ZERO = 0"

definition Fixed_ONE :: Fixed where
  "Fixed_ONE = 1"

definition Fixed_add :: "Fixed \<Rightarrow> Fixed \<Rightarrow> Fixed" where
  "Fixed_add a b = a + b"

definition Fixed_subtract :: "Fixed \<Rightarrow> Fixed \<Rightarrow> Fixed" where
  "Fixed_subtract a b = a - b"

definition Fixed_multiply :: "Fixed \<Rightarrow> Fixed \<Rightarrow> Fixed" where
  "Fixed_multiply a b = a * b"

text \<open>The fields \<^verbatim>\<open>x\<close> and \<^verbatim>\<open>y\<close> of the source are written \<open>vx\<close>, \<open>vy\<close> here.\<close>

record FixedVector2 =
  vx :: Fixed
  vy :: Fixed

definition FixedVector2_new :: "Fixed \<Rightarrow> Fixed \<Rightarrow> FixedVector2" where
  "FixedVector2_new a b = \<lparr>vx = a, vy = b\<rparr>"

definition FixedVector2_ZERO :: FixedVector2 where
  "FixedVector2_ZERO = FixedVector2_new Fixed_ZERO Fixed_ZERO"

definition FixedVector2_add :: "FixedVector2 \<Rightarrow> FixedVector2 \<Rightarrow> FixedVector2" where
  "FixedVector2_add a b = FixedVector2_new (Fixed_add (vx a) (vx b)) (Fixed_add (vy a) (vy b))"

definition FixedVector2_subtract :: "FixedVector2 \<Rightarrow> FixedVector2 \<Rightarrow> FixedVector2" where
  "FixedVector2_subtract a b =
     FixedVector2_new (Fixed_subtract (vx a) (vx b)) (Fixed_subtract (vy a) (vy b))"

record FixedRect =
  rect_x :: Fixed
  rect_y :: Fixed
  rect_width :: Fixed
  rect_height :: Fixed

definition FixedRect_new :: "Fixed \<Rightarrow> Fixed \<Rightarrow> Fixed \<Rightarrow> Fixed \<Rightarrow> FixedRect" where
  "FixedRect_new a b w h = \<lparr>rect_x = a, rect_y = b, rect_width = w, rect_height = h\<rparr>"

section \<open>Types of \<^verbatim>\<open>CanvasTypes.ts\<close>\<close>

record ScreenPoint =
  sx :: number
  sy :: number

record ScreenSize =
  width :: number
  height :: number

record ScreenRect =
  scr_x :: number
  scr_y :: number
  scr_width :: number
  scr_height :: number

section \<open>The coordinate system (\<^verbatim>\<open>CoordinateSystem.ts\<close>)\<close>

record CoordinateSystem =
  pixelsPerUnit :: number
  canvasSize :: ScreenSize
  cameraPosition :: FixedVector2
  cameraZoom :: Fixed
  devicePixelRatio :: number

definition CoordinateSystem_new :: "number \<Rightarrow> ScreenSize \<Rightarrow> number \<Rightarrow> CoordinateSystem" where
  "CoordinateSystem_new ppu sz dpr =
     \<lparr>pixelsPerUnit = ppu, canvasSize = sz, cameraPosition = FixedVector2_ZERO,
      cameraZoom = Fixed_ONE, devicePixelRatio = dpr\<rparr>"

definition setCanvasSize :: "ScreenSize \<Rightarrow> CoordinateSystem \<Rightarrow> CoordinateSystem" where
  "setCanvasSize sz cs = cs\<lparr>canvasSize := sz\<rparr>"

definition setCameraPosition :: "FixedVector2 \<Rightarrow> CoordinateSystem \<Rightarrow> CoordinateSystem" where
  "setCameraPosition position cs = cs\<lparr>cameraPosition := position\<rparr>"


definition setPixelsPerUnit :: "number \<Rightarrow> CoordinateSystem \<Rightarrow> CoordinateSystem" where
  "setPixelsPerUnit ppu cs = cs\<lparr>pixelsPerUnit := ppu\<rparr>"

definition setDevicePixelRatio :: "number \<Rightarrow> CoordinateSystem \<Rightarrow> CoordinateSystem" where
  "setDevicePixelRatio ratio cs = cs\<lparr>devicePixelRatio := ratio\<rparr>"

definition worldToScreen :: "CoordinateSystem \<Rightarrow> FixedVector2 \<Rightarrow> ScreenPoint" where
  "worldToScreen cs worldPos =
     (let relative = FixedVector2_subtract worldPos (cameraPosition cs);
          scaled = FixedVector2_new
                     (Fixed_multiply (vx relative) (cameraZoom cs))
                     (Fixed_multiply (vy relative) (cameraZoom cs));
          pixelX = toNumber (vx scaled) * pixelsPerUnit cs;
          pixelY = toNumber (vy scaled) * pixelsPerUnit cs;
          screenX = pixelX + width (canvasSize cs) / 2;
          screenY = height (canvasSize cs) / 2 - pixelY
      in \<lparr>sx = screenX, sy = screenY\<rparr>)"

definition worldToScreenDistance :: "CoordinateSystem \<Rightarrow> Fixed \<Rightarrow> number" where
  "worldToScreenDistance cs worldDistance =
     toNumber worldDistance * pixelsPerUnit cs * toNumber (cameraZoom cs)"

definition worldToScreenRect :: "CoordinateSystem \<Rightarrow> FixedRect \<Rightarrow> ScreenRect" where
  "worldToScreenRect cs worldRect =
     (let topLeft = worldToScreen cs
            (FixedVector2_new (rect_x worldRect)
               (Fixed_add (rect_y worldRect) (rect_height worldRect)));
          bottomRight = worldToScreen cs
            (FixedVector2_new (Fixed_add (rect_x worldRect) (rect_width worldRect))
               (rect_y worldRect))
      in \<lparr>scr_x = sx topLeft, scr_y = sy topLeft,
          scr_width = sx bottomRight - sx topLeft,
          scr_height = sy bottomRight - sy topLeft\<rparr>)"

section \<open>The coordinate system with rounding\<close>

text \<open>
  Modelled from the spec: neither the rounding of IEEE double arithmetic nor the class
  \<^verbatim>\<open>Fixed\<close> is part of the sources. Both are parameters here. \<open>rd\<close> maps the exact result of
  an operation on doubles to the double that the operation returns; \<open>rf\<close> maps the exact
  result of an operation on \<^verbatim>\<open>Fixed\<close> values, the constructor \<^verbatim>\<open>new Fixed(n)\<close> included, to
  the \<^verbatim>\<open>Fixed\<close> that the operation returns; \<^verbatim>\<open>toNumber\<close> returns the double for its
  \<^verbatim>\<open>Fixed\<close>. With \<open>exact_arith\<close> nothing is rounded. A division whose divisor is zero has
  no finite value, which is written \<open>None\<close>.
\<close>

record arith =
  rd :: "rat \<Rightarrow> rat"
  rf :: "rat \<Rightarrow> rat"

definition exact_arith :: arith where
  "exact_arith = \<lparr>rd = (\<lambda>v. v), rf = (\<lambda>v. v)\<rparr>"



definition Fixed_toNumber :: "arith \<Rightarrow> Fixed \<Rightarrow> number" where
  "Fixed_toNumber A f = rd A f"

definition Fixed_add_rounded :: "arith \<Rightarrow> Fixed \<Rightarrow> Fixed \<Rightarrow> Fixed" where
  "Fixed_add_rounded A a b = rf A (a + b)"

definition Fixed_subtract_rounded :: "arith \<Rightarrow> Fixed \<Rightarrow> Fixed \<Rightarrow> Fixed" where
  "Fixed_subtract_rounded A a b = rf A (a - b)"

definition Fixed_multiply_rounded :: "arith \<Rightarrow> Fixed \<Rightarrow> Fixed \<Rightarrow> Fixed" where
  "Fixed_multiply_rounded A a b = rf A (a * b)"



definition FixedVector2_subtract_rounded ::
    "arith \<Rightarrow> FixedVector2 \<Rightarrow> FixedVector2 \<Rightarrow> FixedVector2" where
  "FixedVector2_subtract_rounded A a b =
     FixedVector2_new (Fixed_subtract_rounded A (vx a) (vx b))
       (Fixed_subtract_rounded A (vy a) (vy b))"

text \<open>\<^verbatim>\<open>worldToScreen\<close>, every operation rounded.\<close>

definition worldToScreen_rounded ::
    "arith \<Rightarrow> CoordinateSystem \<Rightarrow> FixedVector2 \<Rightarrow> ScreenPoint" where
  "worldToScreen_rounded A cs worldPos =
     (let relative = FixedVector2_subtract_rounded A worldPos (cameraPosition cs);
          scaled = FixedVector2_new
                     (Fixed_multiply_rounded A (vx relative) (cameraZoom cs))
                     (Fixed_multiply_rounded A (vy relative) (cameraZoom cs));
          pixelX = rd A (Fixed_toNumber A (vx scaled) * pixelsPerUnit cs);
          pixelY = rd A (Fixed_toNumber A (vy scaled) * pixelsPerUnit cs);
          screenX = rd A (pixelX + rd A (width (canvasSize cs) / 2));
          screenY = rd A (rd A (height (canvasSize cs) / 2) - pixelY)
      in \<lparr>sx = screenX, sy = screenY\<rparr>)"


text \<open>\<^verbatim>\<open>worldToScreenDistance\<close>, every operation rounded.\<close>

definition worldToScreenDistance_rounded :: "arith \<Rightarrow> CoordinateSystem \<Rightarrow> Fixed \<Rightarrow> number" where
  "worldToScreenDistance_rounded A cs worldDistance =
     rd A (rd A (Fixed_toNumber A worldDistance * pixelsPerUnit cs)
           * Fixed_toNumber A (cameraZoom cs))"


text \<open>\<^verbatim>\<open>worldToScreenRect\<close>, every operation rounded.\<close>

definition worldToScreenRect_rounded ::
    "arith \<Rightarrow> CoordinateSystem \<Rightarrow> FixedRect \<Rightarrow> ScreenRect" where
  "worldToScreenRect_rounded A cs worldRect =
     (let topLeft = worldToScreen_rounded A cs
            (FixedVector2_new (rect_x worldRect)
               (Fixed_add_rounded A (rect_y worldRect) (rect_height worldRect)));
          bottomRight = worldToScreen_rounded A cs
            (FixedVector2_new (Fixed_add_rounded A (rect_x worldRect) (rect_width worldRect))
               (rect_y worldRect))
      in \<lparr>scr_x = sx topLeft, scr_y = sy topLeft,
          scr_width = rd A (sx bottomRight - sx topLeft),
          scr_height = rd A (sy bottomRight - sy topLeft)\<rparr>)"

section \<open>Styles, colours and textures\<close>

text \<open>
  Modelled from the spec: \<^verbatim>\<open>Color\<close>, the style interfaces, \<^verbatim>\<open>Transform2D\<close>, \<^verbatim>\<open>BlendMode\<close>,
  \<^verbatim>\<open>RenderState\<close>, \<^verbatim>\<open>Viewport\<close> and \<^verbatim>\<open>ITexture\<close> come from the package
  \<^verbatim>\<open>@esengine/nova-ecs-render-core\<close>, which is not part of the sources. The records
  below have the fields that this repository reads; an optional field is an \<open>option\<close>.
\<close>

record Color =
  col_r :: number
  col_g :: number
  col_b :: number
  col_a :: number

record LineStyle =
  line_color :: Color
  thickness :: Fixed
  line_dashPattern :: "Fixed list option"

record ShapeStyle =
  fillColor :: "Color option"
  strokeColor :: "Color option"
  strokeThickness :: "Fixed option"
  shape_dashPattern :: "Fixed list option"

record TextStyle =
  text_color :: Color
  fontSize :: Fixed
  fontFamily :: "string option"
  fontWeight :: "string option"
  fontStyle :: "string option"
  style_textAlign :: "string option"
  style_textBaseline :: "string option"

record TextureStyle =
  tint :: "Color option"
  tex_opacity :: "number option"
  tex_scale :: "FixedVector2 option"
  tex_rotation :: "Fixed option"
  anchor :: "FixedVector2 option"
  flipX :: bool
  flipY :: bool

record Transform2D =
  tr_position :: FixedVector2
  tr_rotation :: Fixed
  tr_scale :: FixedVector2

text \<open>\<open>BM_Other\<close> stands for a value outside the enumeration (the \<^verbatim>\<open>default\<close> branch).\<close>

datatype BlendMode =
  BM_Normal | BM_Add | BM_Multiply | BM_Screen | BM_Overlay | BM_Darken | BM_Lighten | BM_Other

record RenderState =
  blendMode :: BlendMode
  rs_opacity :: number
  clipRect :: "FixedRect option"

record Viewport =
  vp_width :: number
  vp_height :: number

text \<open>A drawable source handle (image, canvas or bitmap) is an opaque identifier.\<close>

type_synonym ImageSource = nat

record CanvasTexture =
  tex_source :: ImageSource
  tex_width :: number
  tex_height :: number

text \<open>
  An \<^verbatim>\<open>ITexture\<close> is either an instance of this repository's \<^verbatim>\<open>CanvasTexture\<close> or some
  other implementation of the interface.
\<close>

datatype ITexture = IsCanvasTexture CanvasTexture | ForeignTexture nat

text \<open>The \<^verbatim>\<open>style: unknown\<close> of a draw command is one of the three style interfaces.\<close>

datatype Style = LineSt LineStyle | ShapeSt ShapeStyle | TextSt TextStyle

text \<open>
  Library functions that the sources call and do not define are parameters of the model:
  \<^verbatim>\<open>ColorUtils.toHex\<close>, \<^verbatim>\<open>JSON.stringify\<close> on a style object, and the conversion of a
  number to a string inside a template literal.
\<close>

record externals =
  toHex :: "Color \<Rightarrow> string"
  stringify :: "Style \<Rightarrow> string"
  numberToString :: "number \<Rightarrow> string"

section \<open>More types of \<^verbatim>\<open>CanvasTypes.ts\<close>\<close>

record CanvasRendererConfig =
  cfg_pixelsPerUnit :: number
  enableHighDPI :: bool
  enableStyleCaching :: bool
  enableBatchRendering :: bool
  cfg_maxBatchSize :: number
  backgroundColor :: "Color option"
  enableAntialiasing :: bool

definition DEFAULT_CANVAS_CONFIG :: CanvasRendererConfig where
  "DEFAULT_CANVAS_CONFIG =
     \<lparr>cfg_pixelsPerUnit = 100, enableHighDPI = True, enableStyleCaching = True,
      enableBatchRendering = True, cfg_maxBatchSize = 1000, backgroundColor = None,
      enableAntialiasing = True\<rparr>"

datatype kind = K_line | K_circle | K_rect | K_polygon | K_text | K_texture

definition kind_name :: "kind \<Rightarrow> string" where
  "kind_name k = (case k of K_line \<Rightarrow> ''line'' | K_circle \<Rightarrow> ''circle'' | K_rect \<Rightarrow> ''rect''
     | K_polygon \<Rightarrow> ''polygon'' | K_text \<Rightarrow> ''text'' | K_texture \<Rightarrow> ''texture'')"

text \<open>The \<^verbatim>\<open>data: unknown\<close> of a draw command is one of the payload interfaces.\<close>

datatype DrawData =
    LineDrawData FixedVector2 FixedVector2
  | CircleDrawData FixedVector2 Fixed
  | RectDrawData Fixed Fixed Fixed Fixed
  | PolygonDrawData "FixedVector2 list"
  | TextDrawData string FixedVector2

record DrawCommand =
  cmd_type :: kind
  cmd_data :: DrawData
  cmd_style :: Style

record StyleCacheEntry =
  strokeStyle :: "string option"
  fillStyle :: "string option"
  lineWidth :: "number option"
  lineCap :: "string option"
  lineJoin :: "string option"
  font :: "string option"
  textAlign :: "string option"
  textBaseline :: "string option"
  globalAlpha :: "number option"
  globalCompositeOperation :: "string option"

text \<open>The empty object \<^verbatim>\<open>{}\<close> as a cache entry: every field is undefined.\<close>

definition empty_StyleCacheEntry :: StyleCacheEntry where
  "empty_StyleCacheEntry =
     \<lparr>strokeStyle = None, fillStyle = None, lineWidth = None, lineCap = None,
      lineJoin = None, font = None, textAlign = None, textBaseline = None,
      globalAlpha = None, globalCompositeOperation = None\<rparr>"

record CanvasRenderStats =
  drawCalls :: nat
  batchedDrawCalls :: nat
  styleChanges :: nat
  transformChanges :: nat
  textureBinds :: nat
  pixelsDrawn :: number
  frameTime :: number

definition zero_CanvasRenderStats :: CanvasRenderStats where
  "zero_CanvasRenderStats =
     \<lparr>drawCalls = 0, batchedDrawCalls = 0, styleChanges = 0, transformChanges = 0,
      textureBinds = 0, pixelsDrawn = 0, frameTime = 0\<rparr>"

section \<open>The raster context and the canvas element\<close>

text \<open>
  The sources write to the \<^verbatim>\<open>CanvasRenderingContext2D\<close> and never read a drawing result
  back from it, so the context is modelled by the sequence of calls and property writes
  made on it, oldest first. \<open>Ctx_arc x y r\<close> is \<^verbatim>\<open>arc(x, y, r, 0, 2 * Math.PI)\<close>,
  \<open>Ctx_ellipse x y rx ry\<close> is \<^verbatim>\<open>ellipse(x, y, rx, ry, 0, 0, 2 * Math.PI)\<close>, and
  \<open>Ctx_mul_globalAlpha a\<close> is \<^verbatim>\<open>globalAlpha *= a\<close>.
\<close>

datatype ctx_op =
    Ctx_save
  | Ctx_restore
  | Ctx_translate number number
  | Ctx_rotate number
  | Ctx_scale number number
  | Ctx_setTransform number number number number number number
  | Ctx_beginPath
  | Ctx_closePath
  | Ctx_moveTo number number
  | Ctx_lineTo number number
  | Ctx_arc number number number
  | Ctx_ellipse number number number number
  | Ctx_rect number number number number
  | Ctx_fillRect number number number number
  | Ctx_fill
  | Ctx_stroke
  | Ctx_clip
  | Ctx_fillText string number number
  | Ctx_drawImage ImageSource number number
  | Ctx_drawImageRegion ImageSource number number number number number number number number
  | Ctx_setLineDash "number list"
  | Ctx_set_strokeStyle string
  | Ctx_set_fillStyle string
  | Ctx_set_lineWidth number
  | Ctx_set_font string
  | Ctx_set_textAlign string
  | Ctx_set_textBaseline string
  | Ctx_set_globalAlpha number
  | Ctx_mul_globalAlpha number
  | Ctx_set_globalCompositeOperation string
  | Ctx_set_imageSmoothingEnabled bool

text \<open>
  The canvas element: its backing size, whether \<^verbatim>\<open>getContext('2d')\<close> yields a context,
  the size \<^verbatim>\<open>getBoundingClientRect()\<close> reports, and the CSS size in its \<^verbatim>\<open>style\<close>.
\<close>

record Canvas =
  cv_width :: number
  cv_height :: number
  has_2d_context :: bool
  client_width :: number
  client_height :: number
  css_width :: string
  css_height :: string

section \<open>The state of a renderer\<close>

record StyleManager =
  currentStyle :: StyleCacheEntry
  styleChangeCount :: nat
  enableCaching :: bool

record BatchManager =
  batchCommands :: "DrawCommand list"
  maxBatchSize :: number
  batchingEnabled :: bool
  batchedDrawCallCount :: nat

record BatchGroup =
  grp_type :: kind
  grp_style :: Style
  grp_commands :: "DrawCommand list"

text \<open>
  A \<^verbatim>\<open>CanvasRenderer\<close> with the objects it owns. The style manager and the batch manager
  hold references to the same raster context (and the batch manager to the same style
  manager and coordinate system) as the renderer, so their methods are functions on
  this one state. \<open>console\<close> collects the messages of \<^verbatim>\<open>console.warn\<close>.
\<close>

record CanvasRenderer =
  canvas :: Canvas
  ctx :: "ctx_op list"
  console :: "string list"
  config :: CanvasRendererConfig
  coordinateSystem :: CoordinateSystem
  styleManager :: StyleManager
  batchManager :: BatchManager
  transformStackDepth :: int
  canvasStats :: CanvasRenderStats

definition ctx_call :: "ctx_op \<Rightarrow> CanvasRenderer \<Rightarrow> CanvasRenderer" where
  "ctx_call c r = r\<lparr>ctx := ctx r @ [c]\<rparr>"

section \<open>The style manager (\<^verbatim>\<open>StyleManager.ts\<close>)\<close>

definition StyleManager_new :: "bool \<Rightarrow> StyleManager" where
  "StyleManager_new caching =
     \<lparr>currentStyle = empty_StyleCacheEntry, styleChangeCount = 0, enableCaching = caching\<rparr>"

definition getStyleChangeCount :: "CanvasRenderer \<Rightarrow> nat" where
  "getStyleChangeCount r = styleChangeCount (styleManager r)"

definition resetStyleChangeCount :: "CanvasRenderer \<Rightarrow> CanvasRenderer" where
  "resetStyleChangeCount r = r\<lparr>styleManager := (styleManager r)\<lparr>styleChangeCount := 0\<rparr>\<rparr>"

text \<open>
  What the three statements in the body of every setter do once the test has passed:
  the write to the context, the update of the cache entry, and the increment.
\<close>

definition style_write ::
    "ctx_op \<Rightarrow> (StyleCacheEntry \<Rightarrow> StyleCacheEntry) \<Rightarrow> CanvasRenderer \<Rightarrow> CanvasRenderer" where
  "style_write c upd r =
     (ctx_call c r)\<lparr>styleManager := (styleManager r)
        \<lparr>currentStyle := upd (currentStyle (styleManager r)),
         styleChangeCount := styleChangeCount (styleManager r) + 1\<rparr>\<rparr>"

definition setStrokeStyle :: "string \<Rightarrow> CanvasRenderer \<Rightarrow> CanvasRenderer" where
  "setStrokeStyle style r =
     (if \<not> enableCaching (styleManager r)
         \<or> strokeStyle (currentStyle (styleManager r)) \<noteq> Some style
      then style_write (Ctx_set_strokeStyle style) (\<lambda>c. c\<lparr>strokeStyle := Some style\<rparr>) r
      else r)"

definition setFillStyle :: "string \<Rightarrow> CanvasRenderer \<Rightarrow> CanvasRenderer" where
  "setFillStyle style r =
     (if \<not> enableCaching (styleManager r)
         \<or> fillStyle (currentStyle (styleManager r)) \<noteq> Some style
      then style_write (Ctx_set_fillStyle style) (\<lambda>c. c\<lparr>fillStyle := Some style\<rparr>) r
      else r)"

definition setLineWidth :: "number \<Rightarrow> CanvasRenderer \<Rightarrow> CanvasRenderer" where
  "setLineWidth w r =
     (if \<not> enableCaching (styleManager r)
         \<or> lineWidth (currentStyle (styleManager r)) \<noteq> Some w
      then style_write (Ctx_set_lineWidth w) (\<lambda>c. c\<lparr>lineWidth := Some w\<rparr>) r
      else r)"

definition setFont :: "string \<Rightarrow> CanvasRenderer \<Rightarrow> CanvasRenderer" where
  "setFont f r =
     (if \<not> enableCaching (styleManager r)
         \<or> font (currentStyle (styleManager r)) \<noteq> Some f
      then style_write (Ctx_set_font f) (\<lambda>c. c\<lparr>font := Some f\<rparr>) r
      else r)"

definition setTextAlign :: "string \<Rightarrow> CanvasRenderer \<Rightarrow> CanvasRenderer" where
  "setTextAlign align r =
     (if \<not> enableCaching (styleManager r)
         \<or> textAlign (currentStyle (styleManager r)) \<noteq> Some align
      then style_write (Ctx_set_textAlign align) (\<lambda>c. c\<lparr>textAlign := Some align\<rparr>) r
      else r)"

definition setTextBaseline :: "string \<Rightarrow> CanvasRenderer \<Rightarrow> CanvasRenderer" where
  "setTextBaseline baseline r =
     (if \<not> enableCaching (styleManager r)
         \<or> textBaseline (currentStyle (styleManager r)) \<noteq> Some baseline
      then style_write (Ctx_set_textBaseline baseline) (\<lambda>c. c\<lparr>textBaseline := Some baseline\<rparr>) r
      else r)"

definition setGlobalAlpha :: "number \<Rightarrow> CanvasRenderer \<Rightarrow> CanvasRenderer" where
  "setGlobalAlpha a r =
     (if \<not> enableCaching (styleManager r)
         \<or> globalAlpha (currentStyle (styleManager r)) \<noteq> Some a
      then style_write (Ctx_set_globalAlpha a) (\<lambda>c. c\<lparr>globalAlpha := Some a\<rparr>) r
      else r)"

definition setGlobalCompositeOperation :: "string \<Rightarrow> CanvasRenderer \<Rightarrow> CanvasRenderer" where
  "setGlobalCompositeOperation operation r =
     (if \<not> enableCaching (styleManager r)
         \<or> globalCompositeOperation (currentStyle (styleManager r)) \<noteq> Some operation
      then style_write (Ctx_set_globalCompositeOperation operation)
             (\<lambda>c. c\<lparr>globalCompositeOperation := Some operation\<rparr>) r
      else r)"

text \<open>
  The dash pattern is set on the context directly, outside the cache:
  \<^verbatim>\<open>if (pattern && pattern.length > 0) setLineDash(pattern.map(d => d.toNumber()))
  else setLineDash([])\<close>.
\<close>

definition applyDashPattern :: "Fixed list option \<Rightarrow> CanvasRenderer \<Rightarrow> CanvasRenderer" where
  "applyDashPattern pattern r =
     (case pattern of
        Some ds \<Rightarrow>
          (if 0 < length ds then ctx_call (Ctx_setLineDash (map toNumber ds)) r
           else ctx_call (Ctx_setLineDash []) r)
      | None \<Rightarrow> ctx_call (Ctx_setLineDash []) r)"

definition applyLineStyle :: "externals \<Rightarrow> LineStyle \<Rightarrow> CanvasRenderer \<Rightarrow> CanvasRenderer" where
  "applyLineStyle X style r =
     (let colorStr = toHex X (line_color style);
          lineWidth = toNumber (thickness style);
          r1 = setStrokeStyle colorStr r;
          r2 = setLineWidth lineWidth r1
      in applyDashPattern (line_dashPattern style) r2)"

definition applyShapeStyle :: "externals \<Rightarrow> ShapeStyle \<Rightarrow> CanvasRenderer \<Rightarrow> CanvasRenderer" where
  "applyShapeStyle X style r =
     (let r1 = (case fillColor style of
                  Some c \<Rightarrow> setFillStyle (toHex X c) r
                | None \<Rightarrow> r)
      in case strokeColor style of
           Some c \<Rightarrow>
             (let r2 = setStrokeStyle (toHex X c) r1;
                  r3 = (case strokeThickness style of
                          Some t \<Rightarrow> setLineWidth (toNumber t) r2
                        | None \<Rightarrow> r2)
              in applyDashPattern (shape_dashPattern style) r3)
         | None \<Rightarrow> r1)"

text \<open>\<^verbatim>\<open>s || d\<close> on an optional string: an undefined or empty string gives the default.\<close>

definition or_default :: "string option \<Rightarrow> string \<Rightarrow> string" where
  "or_default s d = (case s of None \<Rightarrow> d | Some v \<Rightarrow> if v = [] then d else v)"

text \<open>\<^verbatim>\<open>if (s)\<close> on an optional string: an undefined or empty string is falsy.\<close>

definition truthy :: "string option \<Rightarrow> bool" where
  "truthy s = (case s of None \<Rightarrow> False | Some v \<Rightarrow> v \<noteq> [])"

definition applyTextStyle :: "externals \<Rightarrow> TextStyle \<Rightarrow> CanvasRenderer \<Rightarrow> CanvasRenderer" where
  "applyTextStyle X style r =
     (let colorStr = toHex X (text_color style);
          r1 = setFillStyle colorStr r;
          fontWeight' = or_default (fontWeight style) ''normal'';
          fontStyle' = or_default (fontStyle style) ''normal'';
          fontSize' = toNumber (fontSize style);
          fontFamily' = or_default (fontFamily style) ''Arial'';
          fontStr = fontStyle' @ '' '' @ fontWeight' @ '' '' @ numberToString X fontSize'
                    @ ''px '' @ fontFamily';
          r2 = setFont fontStr r1;
          r3 = (if truthy (style_textAlign style)
                then setTextAlign (the (style_textAlign style)) r2 else r2)
      in if truthy (style_textBaseline style)
         then setTextBaseline (the (style_textBaseline style)) r3 else r3)"

definition blendModeToCanvas :: "BlendMode \<Rightarrow> string" where
  "blendModeToCanvas b =
     (case b of
        BM_Normal \<Rightarrow> ''source-over''
      | BM_Add \<Rightarrow> ''lighter''
      | BM_Multiply \<Rightarrow> ''multiply''
      | BM_Screen \<Rightarrow> ''screen''
      | BM_Overlay \<Rightarrow> ''overlay''
      | BM_Darken \<Rightarrow> ''darken''
      | BM_Lighten \<Rightarrow> ''lighten''
      | BM_Other \<Rightarrow> ''source-over'')"

definition applyBlendMode :: "BlendMode \<Rightarrow> CanvasRenderer \<Rightarrow> CanvasRenderer" where
  "applyBlendMode b r = setGlobalCompositeOperation (blendModeToCanvas b) r"

definition applyOpacity :: "number \<Rightarrow> CanvasRenderer \<Rightarrow> CanvasRenderer" where
  "applyOpacity opacity r = setGlobalAlpha opacity r"

definition saveState :: "CanvasRenderer \<Rightarrow> CanvasRenderer" where
  "saveState r = ctx_call Ctx_save r"

definition restoreState :: "CanvasRenderer \<Rightarrow> CanvasRenderer" where
  "restoreState r =
     (let r1 = ctx_call Ctx_restore r
      in r1\<lparr>styleManager := (styleManager r1)\<lparr>currentStyle := empty_StyleCacheEntry\<rparr>\<rparr>)"

definition resetCache :: "CanvasRenderer \<Rightarrow> CanvasRenderer" where
  "resetCache r = r\<lparr>styleManager := (styleManager r)\<lparr>currentStyle := empty_StyleCacheEntry\<rparr>\<rparr>"

section \<open>Immediate drawing (\<^verbatim>\<open>CanvasRenderer.ts\<close>)\<close>

definition drawLineImmediate ::
    "externals \<Rightarrow> FixedVector2 \<Rightarrow> FixedVector2 \<Rightarrow> LineStyle \<Rightarrow> CanvasRenderer \<Rightarrow> CanvasRenderer" where
  "drawLineImmediate X start endPos style r =
     (let r1 = applyLineStyle X style r;
          startScreen = worldToScreen (coordinateSystem r1) start;
          endScreen = worldToScreen (coordinateSystem r1) endPos;
          r2 = ctx_call Ctx_beginPath r1;
          r3 = ctx_call (Ctx_moveTo (sx startScreen) (sy startScreen)) r2;
          r4 = ctx_call (Ctx_lineTo (sx endScreen) (sy endScreen)) r3
      in ctx_call Ctx_stroke r4)"

text \<open>
  The tail shared by the circle, rectangle, polygon and ellipse drawers:
  \<^verbatim>\<open>if (style.fillColor) { applyShapeStyle(style); fill() }\<close> and then
  \<^verbatim>\<open>if (style.strokeColor) { applyShapeStyle(style); stroke() }\<close>.
\<close>

definition fillAndStroke :: "externals \<Rightarrow> ShapeStyle \<Rightarrow> CanvasRenderer \<Rightarrow> CanvasRenderer" where
  "fillAndStroke X style r =
     (let r1 = (if fillColor style \<noteq> None
                then ctx_call Ctx_fill (applyShapeStyle X style r) else r)
      in if strokeColor style \<noteq> None
         then ctx_call Ctx_stroke (applyShapeStyle X style r1) else r1)"

definition drawCircleImmediate ::
    "externals \<Rightarrow> FixedVector2 \<Rightarrow> Fixed \<Rightarrow> ShapeStyle \<Rightarrow> CanvasRenderer \<Rightarrow> CanvasRenderer" where
  "drawCircleImmediate X center radius style r =
     (let centerScreen = worldToScreen (coordinateSystem r) center;
          radiusPixels = worldToScreenDistance (coordinateSystem r) radius;
          r1 = ctx_call Ctx_beginPath r;
          r2 = ctx_call (Ctx_arc (sx centerScreen) (sy centerScreen) radiusPixels) r1
      in fillAndStroke X style r2)"

definition drawRectImmediate ::
    "externals \<Rightarrow> FixedRect \<Rightarrow> ShapeStyle \<Rightarrow> CanvasRenderer \<Rightarrow> CanvasRenderer" where
  "drawRectImmediate X bounds style r =
     (let screenRect = worldToScreenRect (coordinateSystem r) bounds;
          r1 = ctx_call Ctx_beginPath r;
          r2 = ctx_call (Ctx_rect (scr_x screenRect) (scr_y screenRect)
                           (scr_width screenRect) (scr_height screenRect)) r1
      in fillAndStroke X style r2)"

definition drawPolygonImmediate ::
    "externals \<Rightarrow> FixedVector2 list \<Rightarrow> ShapeStyle \<Rightarrow> CanvasRenderer \<Rightarrow> CanvasRenderer" where
  "drawPolygonImmediate X vertices style r =
     (if length vertices < 3 then r
      else
        (let r1 = ctx_call Ctx_beginPath r;
             firstPoint = worldToScreen (coordinateSystem r1) (hd vertices);
             r2 = ctx_call (Ctx_moveTo (sx firstPoint) (sy firstPoint)) r1;
             r3 = foldl (\<lambda>q v.
                           (let point = worldToScreen (coordinateSystem q) v
                            in ctx_call (Ctx_lineTo (sx point) (sy point)) q))
                    r2 (tl vertices);
             r4 = ctx_call Ctx_closePath r3
         in fillAndStroke X style r4))"

definition drawEllipseImmediate ::
    "externals \<Rightarrow> FixedRect \<Rightarrow> ShapeStyle \<Rightarrow> CanvasRenderer \<Rightarrow> CanvasRenderer" where
  "drawEllipseImmediate X bounds style r =
     (let screenRect = worldToScreenRect (coordinateSystem r) bounds;
          centerX = scr_x screenRect + scr_width screenRect / 2;
          centerY = scr_y screenRect + scr_height screenRect / 2;
          radiusX = scr_width screenRect / 2;
          radiusY = scr_height screenRect / 2;
          r1 = ctx_call Ctx_beginPath r;
          r2 = ctx_call (Ctx_ellipse centerX centerY radiusX radiusY) r1
      in fillAndStroke X style r2)"

definition drawTextImmediate ::
    "externals \<Rightarrow> string \<Rightarrow> FixedVector2 \<Rightarrow> TextStyle \<Rightarrow> CanvasRenderer \<Rightarrow> CanvasRenderer" where
  "drawTextImmediate X txt pos style r =
     (let r1 = ctx_call Ctx_save r;
          r2 = ctx_call (Ctx_scale 1 (- 1)) r1;
          r3 = applyTextStyle X style r2;
          screenPos = worldToScreen (coordinateSystem r3) pos;
          r4 = ctx_call (Ctx_fillText txt (sx screenPos) (- sy screenPos)) r3
      in ctx_call Ctx_restore r4)"

definition applyTextureStyle ::
    "TextureStyle \<Rightarrow> ScreenPoint \<Rightarrow> CanvasTexture \<Rightarrow> CanvasRenderer \<Rightarrow> CanvasRenderer" where
  "applyTextureStyle style pos texture r =
     (let r1 = (case tint style of
                  Some t \<Rightarrow> ctx_call (Ctx_set_globalAlpha (col_a t)) r
                | None \<Rightarrow> r);
          r2 = (case tex_opacity style of
                  Some opacity \<Rightarrow> ctx_call (Ctx_mul_globalAlpha opacity) r1
                | None \<Rightarrow> r1);
          r3 = (case tex_scale style of
                  Some s \<Rightarrow> ctx_call (Ctx_scale (toNumber (vx s)) (toNumber (vy s))) r2
                | None \<Rightarrow> r2);
          r4 = (case tex_rotation style of
                  Some rot \<Rightarrow>
                    (if rot \<noteq> Fixed_ZERO
                     then ctx_call (Ctx_translate (- sx pos) (- sy pos))
                            (ctx_call (Ctx_rotate (toNumber rot))
                               (ctx_call (Ctx_translate (sx pos) (sy pos)) r3))
                     else r3)
                | None \<Rightarrow> r3);
          r5 = (case anchor style of
                  Some a \<Rightarrow>
                    (let offsetX = tex_width texture * toNumber (vx a);
                         offsetY = tex_height texture * toNumber (vy a)
                     in ctx_call (Ctx_translate (- offsetX) (- offsetY)) r4)
                | None \<Rightarrow> r4)
      in if flipX style \<or> flipY style
         then
           (let scaleX = (if flipX style then - 1 else 1);
                scaleY = (if flipY style then - 1 else 1);
                r6 = ctx_call (Ctx_scale scaleX scaleY) r5;
                r7 = (if flipX style
                      then ctx_call (Ctx_translate (- tex_width texture) 0) r6 else r6)
            in if flipY style
               then ctx_call (Ctx_translate 0 (- tex_height texture)) r7 else r7)
         else r5)"

definition drawTextureImmediate ::
    "CanvasTexture \<Rightarrow> FixedVector2 \<Rightarrow> TextureStyle option \<Rightarrow> CanvasRenderer \<Rightarrow> CanvasRenderer" where
  "drawTextureImmediate texture pos style r =
     (let screenPos = worldToScreen (coordinateSystem r) pos;
          r1 = ctx_call Ctx_save r;
          r2 = (case style of
                  Some s \<Rightarrow> applyTextureStyle s screenPos texture r1
                | None \<Rightarrow> r1);
          r3 = ctx_call (Ctx_drawImage (tex_source texture) (sx screenPos) (sy screenPos)) r2
      in ctx_call Ctx_restore r3)"

definition drawTextureRegionImmediate ::
    "CanvasTexture \<Rightarrow> FixedRect \<Rightarrow> FixedRect \<Rightarrow> TextureStyle option
       \<Rightarrow> CanvasRenderer \<Rightarrow> CanvasRenderer" where
  "drawTextureRegionImmediate texture sourceRect destRect style r =
     (let destScreenRect = worldToScreenRect (coordinateSystem r) destRect;
          r1 = ctx_call Ctx_save r;
          r2 = (case style of
                  Some s \<Rightarrow>
                    applyTextureStyle s
                      \<lparr>sx = scr_x destScreenRect, sy = scr_y destScreenRect\<rparr> texture r1
                | None \<Rightarrow> r1);
          r3 = ctx_call
                 (Ctx_drawImageRegion (tex_source texture)
                    (toNumber (rect_x sourceRect)) (toNumber (rect_y sourceRect))
                    (toNumber (rect_width sourceRect)) (toNumber (rect_height sourceRect))
                    (scr_x destScreenRect) (scr_y destScreenRect)
                    (scr_width destScreenRect) (scr_height destScreenRect)) r2
      in ctx_call Ctx_restore r3)"

section \<open>The batch manager (\<^verbatim>\<open>BatchManager.ts\<close>)\<close>

text \<open>
  The constructor of the renderer binds the five \<^verbatim>\<open>draw...Immediate\<close> callbacks of the
  batch manager to the renderer's own methods of the same names, so the model calls
  those directly.
\<close>

definition BatchManager_new :: "number \<Rightarrow> BatchManager" where
  "BatchManager_new m =
     \<lparr>batchCommands = [], maxBatchSize = m, batchingEnabled = False,
      batchedDrawCallCount = 0\<rparr>"

definition beginBatch :: "CanvasRenderer \<Rightarrow> CanvasRenderer" where
  "beginBatch r =
     r\<lparr>batchManager := (batchManager r)
          \<lparr>batchingEnabled := True, batchCommands := [], batchedDrawCallCount := 0\<rparr>\<rparr>"

definition getBatchedDrawCallCount :: "CanvasRenderer \<Rightarrow> nat" where
  "getBatchedDrawCallCount r = batchedDrawCallCount (batchManager r)"

definition resetBatchedDrawCallCount :: "CanvasRenderer \<Rightarrow> CanvasRenderer" where
  "resetBatchedDrawCallCount r =
     r\<lparr>batchManager := (batchManager r)\<lparr>batchedDrawCallCount := 0\<rparr>\<rparr>"

definition getGroupKey :: "externals \<Rightarrow> DrawCommand \<Rightarrow> string" where
  "getGroupKey X command = kind_name (cmd_type command) @ ''_'' @ stringify X (cmd_style command)"

text \<open>
  The array \<^verbatim>\<open>groups\<close> and the map \<^verbatim>\<open>groupMap\<close> of \<^verbatim>\<open>groupCommands\<close> hold the same group
  objects, the array in the order in which the keys first appeared; together they are
  a list of pairs of a key and its group. One iteration of the loop: look the key up,
  append a new empty group at the end when it is absent, and push the command onto the
  group of the key.
\<close>

fun groupStep :: "string \<Rightarrow> DrawCommand \<Rightarrow> (string \<times> BatchGroup) list \<Rightarrow> (string \<times> BatchGroup) list" where
  "groupStep k command [] =
     [(k, \<lparr>grp_type = cmd_type command, grp_style = cmd_style command,
            grp_commands = [command]\<rparr>)]"
| "groupStep k command ((k', g) # gs) =
     (if k' = k then (k', g\<lparr>grp_commands := grp_commands g @ [command]\<rparr>) # gs
      else (k', g) # groupStep k command gs)"

definition groupCommands :: "externals \<Rightarrow> DrawCommand list \<Rightarrow> BatchGroup list" where
  "groupCommands X commands =
     map snd (foldl (\<lambda>gs command. groupStep (getGroupKey X command) command gs) [] commands)"

text \<open>
  The casts \<^verbatim>\<open>group.style as LineStyle\<close> and \<^verbatim>\<open>command.data as LineDrawData\<close> are case
  distinctions here. Every \<^verbatim>\<open>add...\<close> method builds a command whose payload and style
  fit its kind, so the other cases are never reached; they leave the state as it is.
\<close>

definition executeLineGroup :: "externals \<Rightarrow> BatchGroup \<Rightarrow> CanvasRenderer \<Rightarrow> CanvasRenderer" where
  "executeLineGroup X grp r =
     (case grp_style grp of
        LineSt style \<Rightarrow>
          (let r1 = applyLineStyle X style r;
               r2 = ctx_call Ctx_beginPath r1;
               r3 = foldl (\<lambda>q command.
                       (case cmd_data command of
                          LineDrawData s e \<Rightarrow>
                            (let start = worldToScreen (coordinateSystem q) s;
                                 endPos = worldToScreen (coordinateSystem q) e
                             in ctx_call (Ctx_lineTo (sx endPos) (sy endPos))
                                  (ctx_call (Ctx_moveTo (sx start) (sy start)) q))
                        | _ \<Rightarrow> q))
                     r2 (grp_commands grp)
           in ctx_call Ctx_stroke r3)
      | _ \<Rightarrow> r)"

definition executeCircleGroup :: "externals \<Rightarrow> BatchGroup \<Rightarrow> CanvasRenderer \<Rightarrow> CanvasRenderer" where
  "executeCircleGroup X grp r =
     (case grp_style grp of
        ShapeSt style \<Rightarrow>
          foldl (\<lambda>q command.
                   (case cmd_data command of
                      CircleDrawData center radius \<Rightarrow> drawCircleImmediate X center radius style q
                    | _ \<Rightarrow> q))
            r (grp_commands grp)
      | _ \<Rightarrow> r)"

definition executeRectGroup :: "externals \<Rightarrow> BatchGroup \<Rightarrow> CanvasRenderer \<Rightarrow> CanvasRenderer" where
  "executeRectGroup X grp r =
     (case grp_style grp of
        ShapeSt style \<Rightarrow>
          foldl (\<lambda>q command.
                   (case cmd_data command of
                      RectDrawData a b w h \<Rightarrow>
                        drawRectImmediate X (FixedRect_new a b w h) style q
                    | _ \<Rightarrow> q))
            r (grp_commands grp)
      | _ \<Rightarrow> r)"

definition executePolygonGroup :: "externals \<Rightarrow> BatchGroup \<Rightarrow> CanvasRenderer \<Rightarrow> CanvasRenderer" where
  "executePolygonGroup X grp r =
     (case grp_style grp of
        ShapeSt style \<Rightarrow>
          foldl (\<lambda>q command.
                   (case cmd_data command of
                      PolygonDrawData vertices \<Rightarrow> drawPolygonImmediate X vertices style q
                    | _ \<Rightarrow> q))
            r (grp_commands grp)
      | _ \<Rightarrow> r)"

definition executeTextGroup :: "externals \<Rightarrow> BatchGroup \<Rightarrow> CanvasRenderer \<Rightarrow> CanvasRenderer" where
  "executeTextGroup X grp r =
     (case grp_style grp of
        TextSt style \<Rightarrow>
          foldl (\<lambda>q command.
                   (case cmd_data command of
                      TextDrawData txt pos \<Rightarrow> drawTextImmediate X txt pos style q
                    | _ \<Rightarrow> q))
            r (grp_commands grp)
      | _ \<Rightarrow> r)"

definition executeGroup :: "externals \<Rightarrow> BatchGroup \<Rightarrow> CanvasRenderer \<Rightarrow> CanvasRenderer" where
  "executeGroup X grp r =
     (case grp_type grp of
        K_line \<Rightarrow> executeLineGroup X grp r
      | K_circle \<Rightarrow> executeCircleGroup X grp r
      | K_rect \<Rightarrow> executeRectGroup X grp r
      | K_polygon \<Rightarrow> executePolygonGroup X grp r
      | K_text \<Rightarrow> executeTextGroup X grp r
      | K_texture \<Rightarrow> r)"

definition executeGroups :: "externals \<Rightarrow> BatchGroup list \<Rightarrow> CanvasRenderer \<Rightarrow> CanvasRenderer" where
  "executeGroups X groups r = foldl (\<lambda>q grp. executeGroup X grp q) r groups"

definition executeBatch :: "externals \<Rightarrow> CanvasRenderer \<Rightarrow> CanvasRenderer" where
  "executeBatch X r =
     (if length (batchCommands (batchManager r)) = 0 then r
      else
        (let groups = groupCommands X (batchCommands (batchManager r));
             r1 = executeGroups X groups r
         in r1\<lparr>batchManager := (batchManager r1)
                \<lparr>batchedDrawCallCount :=
                   batchedDrawCallCount (batchManager r1) + length groups\<rparr>\<rparr>))"

definition endBatch :: "externals \<Rightarrow> CanvasRenderer \<Rightarrow> CanvasRenderer" where
  "endBatch X r =
     (if batchingEnabled (batchManager r)
      then
        (let r1 = executeBatch X r
         in r1\<lparr>batchManager := (batchManager r1)
                \<lparr>batchingEnabled := False, batchCommands := []\<rparr>\<rparr>)
      else r)"

definition flushBatch :: "externals \<Rightarrow> CanvasRenderer \<Rightarrow> CanvasRenderer" where
  "flushBatch X r =
     (if 0 < length (batchCommands (batchManager r))
      then
        (let r1 = executeBatch X r
         in r1\<lparr>batchManager := (batchManager r1)\<lparr>batchCommands := []\<rparr>\<rparr>)
      else r)"

definition addCommand :: "externals \<Rightarrow> DrawCommand \<Rightarrow> CanvasRenderer \<Rightarrow> CanvasRenderer" where
  "addCommand X command r =
     (let r1 = r\<lparr>batchManager := (batchManager r)
                  \<lparr>batchCommands := batchCommands (batchManager r) @ [command]\<rparr>\<rparr>
      in if maxBatchSize (batchManager r1) \<le> of_nat (length (batchCommands (batchManager r1)))
         then flushBatch X r1 else r1)"

definition addLine ::
    "externals \<Rightarrow> FixedVector2 \<Rightarrow> FixedVector2 \<Rightarrow> LineStyle \<Rightarrow> CanvasRenderer \<Rightarrow> CanvasRenderer" where
  "addLine X start endPos style r =
     (if \<not> batchingEnabled (batchManager r) then drawLineImmediate X start endPos style r
      else addCommand X
             \<lparr>cmd_type = K_line, cmd_data = LineDrawData start endPos, cmd_style = LineSt style\<rparr> r)"

definition addCircle ::
    "externals \<Rightarrow> FixedVector2 \<Rightarrow> Fixed \<Rightarrow> ShapeStyle \<Rightarrow> CanvasRenderer \<Rightarrow> CanvasRenderer" where
  "addCircle X center radius style r =
     (if \<not> batchingEnabled (batchManager r) then drawCircleImmediate X center radius style r
      else addCommand X
             \<lparr>cmd_type = K_circle, cmd_data = CircleDrawData center radius,
              cmd_style = ShapeSt style\<rparr> r)"

definition addRect ::
    "externals \<Rightarrow> FixedRect \<Rightarrow> ShapeStyle \<Rightarrow> CanvasRenderer \<Rightarrow> CanvasRenderer" where
  "addRect X bounds style r =
     (if \<not> batchingEnabled (batchManager r) then drawRectImmediate X bounds style r
      else addCommand X
             \<lparr>cmd_type = K_rect,
              cmd_data = RectDrawData (rect_x bounds) (rect_y bounds)
                           (rect_width bounds) (rect_height bounds),
              cmd_style = ShapeSt style\<rparr> r)"

definition addPolygon ::
    "externals \<Rightarrow> FixedVector2 list \<Rightarrow> ShapeStyle \<Rightarrow> CanvasRenderer \<Rightarrow> CanvasRenderer" where
  "addPolygon X vertices style r =
     (if \<not> batchingEnabled (batchManager r) then drawPolygonImmediate X vertices style r
      else addCommand X
             \<lparr>cmd_type = K_polygon, cmd_data = PolygonDrawData vertices,
              cmd_style = ShapeSt style\<rparr> r)"

definition addText ::
    "externals \<Rightarrow> string \<Rightarrow> FixedVector2 \<Rightarrow> TextStyle \<Rightarrow> CanvasRenderer \<Rightarrow> CanvasRenderer" where
  "addText X txt pos style r =
     (if \<not> batchingEnabled (batchManager r) then drawTextImmediate X txt pos style r
      else addCommand X
             \<lparr>cmd_type = K_text, cmd_data = TextDrawData txt pos, cmd_style = TextSt style\<rparr> r)"

section \<open>The renderer (\<^verbatim>\<open>CanvasRenderer.ts\<close>)\<close>

datatype error = Error string

definition setupCoordinateSystem :: "CanvasRenderer \<Rightarrow> CanvasRenderer" where
  "setupCoordinateSystem r =
     (let r1 = ctx_call (Ctx_translate (cv_width (canvas r) / 2) (cv_height (canvas r) / 2)) r
      in ctx_call (Ctx_scale 1 (- 1)) r1)"

text \<open>
  \<^verbatim>\<open>CoordinateSystem.applyHighDPIScaling(ctx, canvas)\<close>, called with the renderer's own
  context and canvas.
\<close>

definition applyHighDPIScaling :: "externals \<Rightarrow> CanvasRenderer \<Rightarrow> CanvasRenderer" where
  "applyHighDPIScaling X r =
     (if devicePixelRatio (coordinateSystem r) = 1 then r
      else
        (let ratio = devicePixelRatio (coordinateSystem r);
             rectWidth = client_width (canvas r);
             rectHeight = client_height (canvas r);
             r1 = r\<lparr>canvas := (canvas r)
                    \<lparr>cv_width := rectWidth * ratio, cv_height := rectHeight * ratio\<rparr>\<rparr>;
             r2 = r1\<lparr>canvas := (canvas r1)
                     \<lparr>css_width := numberToString X rectWidth @ ''px'',
                      css_height := numberToString X rectHeight @ ''px''\<rparr>\<rparr>;
             r3 = ctx_call (Ctx_scale ratio ratio) r2
         in r3\<lparr>coordinateSystem :=
                setCanvasSize \<lparr>width = rectWidth, height = rectHeight\<rparr> (coordinateSystem r3)\<rparr>))"

definition setupCanvas :: "externals \<Rightarrow> CanvasRenderer \<Rightarrow> CanvasRenderer" where
  "setupCanvas X r =
     (let r1 = (if enableHighDPI (config r) then applyHighDPIScaling X r else r);
          r2 = (if \<not> enableAntialiasing (config r1)
                then ctx_call (Ctx_set_imageSmoothingEnabled False) r1 else r1)
      in setupCoordinateSystem r2)"

text \<open>
  The constructor. Its arguments are the canvas, the configuration after the defaults
  have been merged in, and \<^verbatim>\<open>window.devicePixelRatio\<close> (undefined or zero gives 1, as
  \<^verbatim>\<open>window.devicePixelRatio || 1\<close> does). It throws when the canvas has no 2D context.
\<close>

definition CanvasRenderer_new ::
    "externals \<Rightarrow> Canvas \<Rightarrow> CanvasRendererConfig \<Rightarrow> number option \<Rightarrow> error + CanvasRenderer" where
  "CanvasRenderer_new X cnv cfg windowRatio =
     (if \<not> has_2d_context cnv then Inl (Error ''Failed to get 2D rendering context'')
      else
        (let ratio = (if enableHighDPI cfg
                      then (case windowRatio of
                              None \<Rightarrow> 1
                            | Some d \<Rightarrow> if d = 0 then 1 else d)
                      else 1);
             r = \<lparr>canvas = cnv, ctx = [], console = [], config = cfg,
                  coordinateSystem =
                    CoordinateSystem_new (cfg_pixelsPerUnit cfg)
                      \<lparr>width = cv_width cnv, height = cv_height cnv\<rparr> ratio,
                  styleManager = StyleManager_new (enableStyleCaching cfg),
                  batchManager = BatchManager_new (cfg_maxBatchSize cfg),
                  transformStackDepth = 0,
                  canvasStats = zero_CanvasRenderStats\<rparr>
         in Inr (setupCanvas X r)))"

definition applyCameraTransform :: "CanvasRenderer \<Rightarrow> CanvasRenderer" where
  "applyCameraTransform r = r"

definition resetCanvasStats :: "CanvasRenderer \<Rightarrow> CanvasRenderer" where
  "resetCanvasStats r =
     resetBatchedDrawCallCount
       (resetStyleChangeCount (r\<lparr>canvasStats := zero_CanvasRenderStats\<rparr>))"

definition updateStatistics :: "CanvasRenderer \<Rightarrow> CanvasRenderer" where
  "updateStatistics r =
     r\<lparr>canvasStats := (canvasStats r)
          \<lparr>styleChanges := getStyleChangeCount r,
           batchedDrawCalls := getBatchedDrawCallCount r,
           pixelsDrawn := cv_width (canvas r) * cv_height (canvas r)\<rparr>\<rparr>"

definition onBeginFrame :: "CanvasRenderer \<Rightarrow> CanvasRenderer" where
  "onBeginFrame r =
     (let r1 = ctx_call Ctx_save r;
          r2 = r1\<lparr>transformStackDepth := 0\<rparr>;
          r3 = resetCanvasStats r2
      in applyCameraTransform r3)"

text \<open>
  Modelled from the spec: \<^verbatim>\<open>BaseRenderer\<close> (package \<^verbatim>\<open>@esengine/nova-ecs-render-core\<close>) is
  not part of the sources. Its \<^verbatim>\<open>popTransform\<close>, which the override below calls through
  \<^verbatim>\<open>super\<close>, keeps the base class's own transform bookkeeping; the fields of the renderer
  modelled here are private to \<^verbatim>\<open>CanvasRenderer\<close>, and the call leaves them as they are.
\<close>

definition BaseRenderer_popTransform :: "CanvasRenderer \<Rightarrow> CanvasRenderer" where
  "BaseRenderer_popTransform r = r"

definition popTransform :: "CanvasRenderer \<Rightarrow> CanvasRenderer" where
  "popTransform r =
     (let r1 = (if 0 < transformStackDepth r
                then (ctx_call Ctx_restore r)\<lparr>transformStackDepth := transformStackDepth r - 1\<rparr>
                else r)
      in BaseRenderer_popTransform r1)"

definition applyTransform :: "Transform2D \<Rightarrow> CanvasRenderer \<Rightarrow> CanvasRenderer" where
  "applyTransform transform r =
     (let r1 = ctx_call Ctx_save r;
          r2 = r1\<lparr>transformStackDepth := transformStackDepth r1 + 1\<rparr>;
          r3 = r2\<lparr>canvasStats := (canvasStats r2)
                  \<lparr>transformChanges := transformChanges (canvasStats r2) + 1\<rparr>\<rparr>;
          screenPos = worldToScreen (coordinateSystem r3) (tr_position transform);
          r4 = ctx_call (Ctx_translate (sx screenPos - cv_width (canvas r3) / 2)
                           (- (sy screenPos - cv_height (canvas r3) / 2))) r3;
          r5 = ctx_call (Ctx_rotate (toNumber (tr_rotation transform))) r4
      in ctx_call (Ctx_scale (toNumber (vx (tr_scale transform)))
                     (toNumber (vy (tr_scale transform)))) r5)"

text \<open>The loop \<^verbatim>\<open>while (this.transformStackDepth > 0) this.popTransform()\<close> of \<^verbatim>\<open>onEndFrame\<close>.\<close>

function unwindTransforms :: "CanvasRenderer \<Rightarrow> CanvasRenderer" where
  "unwindTransforms r =
     (if 0 < transformStackDepth r then unwindTransforms (popTransform r) else r)"
  by pat_completeness auto
termination
  by (relation "measure (\<lambda>r. nat (transformStackDepth r))")
     (auto simp: popTransform_def BaseRenderer_popTransform_def ctx_call_def)

declare unwindTransforms.simps [simp del]

definition onEndFrame :: "externals \<Rightarrow> CanvasRenderer \<Rightarrow> CanvasRenderer" where
  "onEndFrame X r =
     (let r1 = flushBatch X r;
          r2 = unwindTransforms r1;
          r3 = ctx_call Ctx_restore r2
      in updateStatistics r3)"

definition onClear :: "externals \<Rightarrow> Color \<Rightarrow> CanvasRenderer \<Rightarrow> CanvasRenderer" where
  "onClear X color r =
     (let r1 = ctx_call Ctx_save r;
          r2 = ctx_call (Ctx_setTransform 1 0 0 1 0 0) r1;
          r3 = ctx_call (Ctx_set_fillStyle (toHex X color)) r2;
          r4 = ctx_call (Ctx_fillRect 0 0 (cv_width (canvas r3)) (cv_height (canvas r3))) r3
      in ctx_call Ctx_restore r4)"

definition dispose :: "externals \<Rightarrow> CanvasRenderer \<Rightarrow> CanvasRenderer" where
  "dispose X r = resetCache (endBatch X r)"

definition count_drawCall :: "CanvasRenderer \<Rightarrow> CanvasRenderer" where
  "count_drawCall r =
     r\<lparr>canvasStats := (canvasStats r)\<lparr>drawCalls := drawCalls (canvasStats r) + 1\<rparr>\<rparr>"

definition count_textureBind :: "CanvasRenderer \<Rightarrow> CanvasRenderer" where
  "count_textureBind r =
     r\<lparr>canvasStats := (canvasStats r)\<lparr>textureBinds := textureBinds (canvasStats r) + 1\<rparr>\<rparr>"

definition onDrawLine ::
    "externals \<Rightarrow> FixedVector2 \<Rightarrow> FixedVector2 \<Rightarrow> LineStyle \<Rightarrow> CanvasRenderer \<Rightarrow> CanvasRenderer" where
  "onDrawLine X start endPos style r =
     count_drawCall
       (if enableBatchRendering (config r) then addLine X start endPos style r
        else drawLineImmediate X start endPos style r)"

definition onDrawCircle ::
    "externals \<Rightarrow> FixedVector2 \<Rightarrow> Fixed \<Rightarrow> ShapeStyle \<Rightarrow> CanvasRenderer \<Rightarrow> CanvasRenderer" where
  "onDrawCircle X center radius style r =
     count_drawCall
       (if enableBatchRendering (config r) then addCircle X center radius style r
        else drawCircleImmediate X center radius style r)"

definition onDrawRect ::
    "externals \<Rightarrow> FixedRect \<Rightarrow> ShapeStyle \<Rightarrow> CanvasRenderer \<Rightarrow> CanvasRenderer" where
  "onDrawRect X bounds style r =
     count_drawCall
       (if enableBatchRendering (config r) then addRect X bounds style r
        else drawRectImmediate X bounds style r)"

definition onDrawPolygon ::
    "externals \<Rightarrow> FixedVector2 list \<Rightarrow> ShapeStyle \<Rightarrow> CanvasRenderer \<Rightarrow> CanvasRenderer" where
  "onDrawPolygon X vertices style r =
     count_drawCall
       (if enableBatchRendering (config r) then addPolygon X vertices style r
        else drawPolygonImmediate X vertices style r)"

definition onDrawEllipse ::
    "externals \<Rightarrow> FixedRect \<Rightarrow> ShapeStyle \<Rightarrow> CanvasRenderer \<Rightarrow> CanvasRenderer" where
  "onDrawEllipse X bounds style r = count_drawCall (drawEllipseImmediate X bounds style r)"

definition onDrawText ::
    "externals \<Rightarrow> string \<Rightarrow> FixedVector2 \<Rightarrow> TextStyle \<Rightarrow> CanvasRenderer \<Rightarrow> CanvasRenderer" where
  "onDrawText X txt pos style r =
     count_drawCall
       (if enableBatchRendering (config r) then addText X txt pos style r
        else drawTextImmediate X txt pos style r)"

definition console_warn :: "string \<Rightarrow> CanvasRenderer \<Rightarrow> CanvasRenderer" where
  "console_warn msg r = r\<lparr>console := console r @ [msg]\<rparr>"

definition onDrawTexture ::
    "ITexture \<Rightarrow> FixedVector2 \<Rightarrow> TextureStyle option \<Rightarrow> CanvasRenderer \<Rightarrow> CanvasRenderer" where
  "onDrawTexture texture pos style r =
     (case texture of
        IsCanvasTexture t \<Rightarrow>
          count_textureBind (count_drawCall (drawTextureImmediate t pos style r))
      | ForeignTexture _ \<Rightarrow> console_warn ''Invalid texture type for Canvas renderer'' r)"

definition onDrawTextureRegion ::
    "ITexture \<Rightarrow> FixedRect \<Rightarrow> FixedRect \<Rightarrow> TextureStyle option
       \<Rightarrow> CanvasRenderer \<Rightarrow> CanvasRenderer" where
  "onDrawTextureRegion texture sourceRect destRect style r =
     (case texture of
        IsCanvasTexture t \<Rightarrow>
          count_textureBind
            (count_drawCall (drawTextureRegionImmediate t sourceRect destRect style r))
      | ForeignTexture _ \<Rightarrow> console_warn ''Invalid texture type for Canvas renderer'' r)"

definition applyClipRect :: "FixedRect \<Rightarrow> CanvasRenderer \<Rightarrow> CanvasRenderer" where
  "applyClipRect clip r =
     (let screenRect = worldToScreenRect (coordinateSystem r) clip;
          r1 = ctx_call Ctx_save r;
          r2 = ctx_call Ctx_beginPath r1;
          r3 = ctx_call (Ctx_rect (scr_x screenRect) (scr_y screenRect)
                           (scr_width screenRect) (scr_height screenRect)) r2
      in ctx_call Ctx_clip r3)"

definition onSetRenderState :: "RenderState \<Rightarrow> CanvasRenderer \<Rightarrow> CanvasRenderer" where
  "onSetRenderState state r =
     (let r1 = applyBlendMode (blendMode state) r;
          r2 = applyOpacity (rs_opacity state) r1
      in case clipRect state of
           Some clip \<Rightarrow> applyClipRect clip r2
         | None \<Rightarrow> r2)"

definition onSetViewport :: "externals \<Rightarrow> Viewport \<Rightarrow> CanvasRenderer \<Rightarrow> CanvasRenderer" where
  "onSetViewport X viewport r =
     (if cv_width (canvas r) \<noteq> vp_width viewport \<or> cv_height (canvas r) \<noteq> vp_height viewport
      then
        (let r1 = r\<lparr>canvas := (canvas r)
                    \<lparr>cv_width := vp_width viewport, cv_height := vp_height viewport\<rparr>\<rparr>;
             r2 = r1\<lparr>coordinateSystem :=
                     setCanvasSize \<lparr>width = vp_width viewport, height = vp_height viewport\<rparr>
                       (coordinateSystem r1)\<rparr>;
             r3 = (if enableHighDPI (config r2) then applyHighDPIScaling X r2 else r2)
         in setupCoordinateSystem r3)
      else r)"

definition setRenderTarget :: "CanvasRenderer \<Rightarrow> CanvasRenderer" where
  "setRenderTarget r =
     console_warn ''Render target switching not implemented for Canvas renderer'' r"

section \<open>Sequences of calls on a renderer\<close>

text \<open>
  Modelled from the spec: the public methods of a renderer (\<^verbatim>\<open>beginFrame\<close>, \<^verbatim>\<open>endFrame\<close>,
  \<^verbatim>\<open>clear\<close>, \<^verbatim>\<open>pushTransform\<close>, \<^verbatim>\<open>drawLine\<close> and so on) are declared by \<^verbatim>\<open>BaseRenderer\<close>,
  which is not part of the sources. Each is taken to invoke the hook that
  \<^verbatim>\<open>CanvasRenderer\<close> implements for it: \<^verbatim>\<open>onBeginFrame\<close>, \<^verbatim>\<open>onEndFrame\<close>, \<^verbatim>\<open>onClear\<close>,
  \<^verbatim>\<open>applyTransform\<close>, \<^verbatim>\<open>onDrawLine\<close> and so on; \<^verbatim>\<open>popTransform\<close>, \<^verbatim>\<open>setRenderTarget\<close> and
  \<^verbatim>\<open>dispose\<close> are overridden by \<^verbatim>\<open>CanvasRenderer\<close> itself.
\<close>

datatype call =
    BeginFrame
  | EndFrame
  | Clear Color
  | PushTransform Transform2D
  | PopTransform
  | DrawLine FixedVector2 FixedVector2 LineStyle
  | DrawCircle FixedVector2 Fixed ShapeStyle
  | DrawRect FixedRect ShapeStyle
  | DrawPolygon "FixedVector2 list" ShapeStyle
  | DrawEllipse FixedRect ShapeStyle
  | DrawText string FixedVector2 TextStyle
  | DrawTexture ITexture FixedVector2 "TextureStyle option"
  | DrawTextureRegion ITexture FixedRect FixedRect "TextureStyle option"
  | SetRenderState RenderState
  | SetViewport Viewport
  | SetRenderTarget
  | Dispose

fun exec :: "externals \<Rightarrow> CanvasRenderer \<Rightarrow> call \<Rightarrow> CanvasRenderer" where
  "exec X r BeginFrame = onBeginFrame r"
| "exec X r EndFrame = onEndFrame X r"
| "exec X r (Clear color) = onClear X color r"
| "exec X r (PushTransform transform) = applyTransform transform r"
| "exec X r PopTransform = popTransform r"
| "exec X r (DrawLine start endPos style) = onDrawLine X start endPos style r"
| "exec X r (DrawCircle center radius style) = onDrawCircle X center radius style r"
| "exec X r (DrawRect bounds style) = onDrawRect X bounds style r"
| "exec X r (DrawPolygon vertices style) = onDrawPolygon X vertices style r"
| "exec X r (DrawEllipse bounds style) = onDrawEllipse X bounds style r"
| "exec X r (DrawText txt pos style) = onDrawText X txt pos style r"
| "exec X r (DrawTexture texture pos style) = onDrawTexture texture pos style r"
| "exec X r (DrawTextureRegion texture sourceRect destRect style) =
     onDrawTextureRegion texture sourceRect destRect style r"
| "exec X r (SetRenderState state) = onSetRenderState state r"
| "exec X r (SetViewport viewport) = onSetViewport X viewport r"
| "exec X r SetRenderTarget = setRenderTarget r"
| "exec X r Dispose = dispose X r"

definition run :: "externals \<Rightarrow> CanvasRenderer \<Rightarrow> call list \<Rightarrow> CanvasRenderer" where
  "run X r calls = foldl (exec X) r calls"

section \<open>Auxiliary notions for the statements\<close>

text \<open>
  \<open>raster_only r r'\<close>: going from \<open>r\<close> to \<open>r'\<close> touched nothing but the raster context and
  the style manager's cache entry and counter.
\<close>

definition raster_only :: "CanvasRenderer \<Rightarrow> CanvasRenderer \<Rightarrow> bool" where
  "raster_only r r' \<longleftrightarrow>
     canvas r' = canvas r \<and> console r' = console r \<and> config r' = config r \<and>
     coordinateSystem r' = coordinateSystem r \<and> batchManager r' = batchManager r \<and>
     transformStackDepth r' = transformStackDepth r \<and> canvasStats r' = canvasStats r \<and>
     enableCaching (styleManager r') = enableCaching (styleManager r)"

text \<open>
  \<open>bounded_rounding \<epsilon> q r\<close>: the rounding \<open>r\<close> moves a value \<open>v\<close> by at most \<open>\<epsilon> * \<bar>v\<bar> + q\<close>.
  For doubles \<open>\<epsilon>\<close> is the unit roundoff (and \<open>q\<close> covers underflow); for a fixed-point
  grid \<open>q\<close> is half the grid step.
\<close>

definition bounded_rounding :: "rat \<Rightarrow> rat \<Rightarrow> (rat \<Rightarrow> rat) \<Rightarrow> bool" where
  "bounded_rounding \<epsilon> q r \<longleftrightarrow> 0 \<le> \<epsilon> \<and> (\<forall>v. \<bar>r v - v\<bar> \<le> \<epsilon> * \<bar>v\<bar> + q)"

















text \<open>
  \<open>draw_only r r'\<close>: as before, but the batch manager's buffer, flag and counter may have
  changed as well.
\<close>

definition draw_only :: "CanvasRenderer \<Rightarrow> CanvasRenderer \<Rightarrow> bool" where
  "draw_only r r' \<longleftrightarrow>
     canvas r' = canvas r \<and> console r' = console r \<and> config r' = config r \<and>
     coordinateSystem r' = coordinateSystem r \<and>
     transformStackDepth r' = transformStackDepth r \<and> canvasStats r' = canvasStats r \<and>
     enableCaching (styleManager r') = enableCaching (styleManager r) \<and>
     maxBatchSize (batchManager r') = maxBatchSize (batchManager r)"

text \<open>
  \<open>performs_write c q q'\<close>: going from \<open>q\<close> to \<open>q'\<close> made the one write \<open>c\<close> to the raster
  context and incremented the style-change counter by one.
\<close>

definition performs_write :: "ctx_op \<Rightarrow> CanvasRenderer \<Rightarrow> CanvasRenderer \<Rightarrow> bool" where
  "performs_write c q q' \<longleftrightarrow>
     ctx q' = ctx q @ [c] \<and>
     styleChangeCount (styleManager q') = styleChangeCount (styleManager q) + 1"

text \<open>
  \<open>batch_idle r\<close>: batch rendering is configured off, nothing is buffered and no
  batched draw call has been counted.
\<close>

definition batch_idle :: "CanvasRenderer \<Rightarrow> bool" where
  "batch_idle r \<longleftrightarrow>
     \<not> enableBatchRendering (config r) \<and> batchCommands (batchManager r) = [] \<and>
     batchedDrawCallCount (batchManager r) = 0 \<and> batchedDrawCalls (canvasStats r) = 0"

text \<open>The command that \<^verbatim>\<open>addCircle\<close> builds from its arguments.\<close>

definition circleCommand :: "FixedVector2 \<times> Fixed \<times> ShapeStyle \<Rightarrow> DrawCommand" where
  "circleCommand c =
     \<lparr>cmd_type = K_circle, cmd_data = CircleDrawData (fst c) (fst (snd c)),
      cmd_style = ShapeSt (snd (snd c))\<rparr>"

text \<open>Drawing a list of circles one after the other, each immediately.\<close>

definition drawCircles ::
    "externals \<Rightarrow> (FixedVector2 \<times> Fixed \<times> ShapeStyle) list \<Rightarrow> CanvasRenderer \<Rightarrow> CanvasRenderer" where
  "drawCircles X cs r =
     foldl (\<lambda>q c. drawCircleImmediate X (fst c) (fst (snd c)) (snd (snd c)) q) r cs"

text \<open>Buffering a list of circles by consecutive calls of \<^verbatim>\<open>addCircle\<close>.\<close>

definition addCircles ::
    "externals \<Rightarrow> (FixedVector2 \<times> Fixed \<times> ShapeStyle) list \<Rightarrow> CanvasRenderer \<Rightarrow> CanvasRenderer" where
  "addCircles X cs r =
     foldl (\<lambda>q c. addCircle X (fst c) (fst (snd c)) (snd (snd c)) q) r cs"

text \<open>
  The value of the draw-call counter after a sequence of calls, computed from the calls
  alone: \<^verbatim>\<open>beginFrame\<close> resets it, every drawing call adds one, except a texture call
  whose texture is not a \<^verbatim>\<open>CanvasTexture\<close>.
\<close>

fun countedDrawCalls :: "nat \<Rightarrow> call \<Rightarrow> nat" where
  "countedDrawCalls n BeginFrame = 0"
| "countedDrawCalls n (DrawLine _ _ _) = n + 1"
| "countedDrawCalls n (DrawCircle _ _ _) = n + 1"
| "countedDrawCalls n (DrawRect _ _) = n + 1"
| "countedDrawCalls n (DrawPolygon _ _) = n + 1"
| "countedDrawCalls n (DrawEllipse _ _) = n + 1"
| "countedDrawCalls n (DrawText _ _ _) = n + 1"
| "countedDrawCalls n (DrawTexture (IsCanvasTexture _) _ _) = n + 1"
| "countedDrawCalls n (DrawTextureRegion (IsCanvasTexture _) _ _ _) = n + 1"
| "countedDrawCalls n _ = n"

section \<open>Example values\<close>

definition example_externals :: externals where
  "example_externals =
     \<lparr>toHex = (\<lambda>c. if col_r c = 1 then ''#ff0000'' else ''#000000''),
      stringify = (\<lambda>s. case s of
                          LineSt l \<Rightarrow> ''{line}''
                        | ShapeSt s \<Rightarrow> (if fillColor s = None then ''{}'' else ''{fillColor}'')
                        | TextSt t \<Rightarrow> ''{text}''),
      numberToString = (\<lambda>n. if n = 0 then ''0'' else ''1'')\<rparr>"

definition example_canvas :: Canvas where
  "example_canvas =
     \<lparr>cv_width = 800, cv_height = 600, has_2d_context = True, client_width = 800,
      client_height = 600, css_width = ''800px'', css_height = ''600px''\<rparr>"

text \<open>The renderer that the constructor builds on the example canvas.\<close>

definition example_renderer :: "CanvasRendererConfig \<Rightarrow> CanvasRenderer" where
  "example_renderer cfg =
     projr (CanvasRenderer_new example_externals example_canvas cfg (Some 1))"

definition black :: Color where
  "black = \<lparr>col_r = 0, col_g = 0, col_b = 0, col_a = 1\<rparr>"

definition red :: Color where
  "red = \<lparr>col_r = 1, col_g = 0, col_b = 0, col_a = 1\<rparr>"

definition example_line :: LineStyle where
  "example_line = \<lparr>line_color = black, thickness = 2, line_dashPattern = None\<rparr>"

definition filled :: ShapeStyle where
  "filled = \<lparr>fillColor = Some red, strokeColor = None, strokeThickness = None,
             shape_dashPattern = None\<rparr>"

definition outlined :: ShapeStyle where
  "outlined = \<lparr>fillColor = None, strokeColor = Some black, strokeThickness = Some 1,
               shape_dashPattern = None\<rparr>"


section \<open>Coordinate conversion\<close>

lemmas fixed_defs = toNumber_def Fixed_ZERO_def Fixed_ONE_def Fixed_add_def
  Fixed_subtract_def Fixed_multiply_def
  FixedVector2_new_def FixedVector2_ZERO_def FixedVector2_add_def FixedVector2_subtract_def

text \<open>
  Claim C5. With the default camera (position zero, zoom one), 100 pixels per unit and a
  canvas of width \<open>W\<close> and height \<open>H\<close>, the world origin maps to the centre of the canvas,
  one unit along the world's X axis to 100 pixels right of it, and one unit along the
  world's Y axis to 100 pixels above it: the Y axis is inverted.
\<close>

theorem default_camera_worldToScreen:
  "worldToScreen (CoordinateSystem_new 100 \<lparr>width = W, height = H\<rparr> dpr)
       (FixedVector2_new Fixed_ZERO Fixed_ZERO) = \<lparr>sx = W / 2, sy = H / 2\<rparr>
   \<and> worldToScreen (CoordinateSystem_new 100 \<lparr>width = W, height = H\<rparr> dpr)
       (FixedVector2_new Fixed_ONE Fixed_ZERO) = \<lparr>sx = W / 2 + 100, sy = H / 2\<rparr>
   \<and> worldToScreen (CoordinateSystem_new 100 \<lparr>width = W, height = H\<rparr> dpr)
       (FixedVector2_new Fixed_ZERO Fixed_ONE) = \<lparr>sx = W / 2, sy = H / 2 - 100\<rparr>"
  by (simp add: worldToScreen_def CoordinateSystem_new_def fixed_defs)

theorem default_camera_worldToScreen_witness:
  "worldToScreen (CoordinateSystem_new 100 \<lparr>width = 800, height = 600\<rparr> 1)
       (FixedVector2_new Fixed_ZERO Fixed_ZERO) = \<lparr>sx = 400, sy = 300\<rparr>
   \<and> worldToScreen (CoordinateSystem_new 100 \<lparr>width = 800, height = 600\<rparr> 1)
       (FixedVector2_new Fixed_ONE Fixed_ZERO) = \<lparr>sx = 500, sy = 300\<rparr>
   \<and> worldToScreen (CoordinateSystem_new 100 \<lparr>width = 800, height = 600\<rparr> 1)
       (FixedVector2_new Fixed_ZERO Fixed_ONE) = \<lparr>sx = 400, sy = 200\<rparr>"
  using default_camera_worldToScreen [of 800 600 1] by simp

section \<open>From world space to screen space and back\<close>


text \<open>
  The rounded conversions with nothing rounded are the exact conversions.
\<close>

lemma rounded_exact:
  "worldToScreen_rounded exact_arith cs p = worldToScreen cs p"
  "worldToScreenDistance_rounded exact_arith cs d = worldToScreenDistance cs d"
  "worldToScreenRect_rounded exact_arith cs rect = worldToScreenRect cs rect"
  by (simp_all add: worldToScreen_rounded_def worldToScreen_def worldToScreenDistance_rounded_def
      worldToScreenDistance_def worldToScreenRect_rounded_def worldToScreenRect_def
      exact_arith_def FixedVector2_subtract_rounded_def FixedVector2_subtract_def
      Fixed_subtract_rounded_def Fixed_subtract_def Fixed_multiply_rounded_def
      Fixed_multiply_def Fixed_add_rounded_def Fixed_add_def Fixed_toNumber_def toNumber_def
      Let_def)

lemma exact_arith_bounded:
  "bounded_rounding 0 0 (rd exact_arith)" "bounded_rounding 0 0 (rf exact_arith)"
  by (simp_all add: bounded_rounding_def exact_arith_def)
























section \<open>What the drawing functions leave unchanged\<close>

lemma raster_only_refl [simp]: "raster_only r r"
  by (simp add: raster_only_def)

lemma raster_only_trans: "raster_only a b \<Longrightarrow> raster_only b c \<Longrightarrow> raster_only a c"
  by (simp add: raster_only_def)

lemma raster_onlyD:
  assumes "raster_only r r'"
  shows "canvas r' = canvas r" and "console r' = console r" and "config r' = config r"
    and "coordinateSystem r' = coordinateSystem r" and "batchManager r' = batchManager r"
    and "transformStackDepth r' = transformStackDepth r" and "canvasStats r' = canvasStats r"
    and "enableCaching (styleManager r') = enableCaching (styleManager r)"
  using assms by (simp_all add: raster_only_def)

lemma foldl_raster_only:
  assumes "\<And>q x. raster_only q (f q x)"
  shows "raster_only r (foldl f r xs)"
proof (induction xs arbitrary: r)
  case Nil
  show ?case by simp
next
  case (Cons x xs)
  have "raster_only r (f r x)" by (rule assms)
  moreover have "raster_only (f r x) (foldl f (f r x) xs)" by (rule Cons.IH)
  ultimately show ?case by (simp add: raster_only_trans)
qed

lemma ctx_call_raster: "raster_only r (ctx_call c r)"
  by (simp add: raster_only_def ctx_call_def)

lemmas ctx_call_fields [simp] = raster_onlyD [OF ctx_call_raster]

lemma ctx_call_ctx [simp]: "ctx (ctx_call c r) = ctx r @ [c]"
  by (simp add: ctx_call_def)

lemma ctx_call_styleManager [simp]: "styleManager (ctx_call c r) = styleManager r"
  by (simp add: ctx_call_def)

lemma style_write_raster: "raster_only r (style_write c u r)"
  by (simp add: raster_only_def style_write_def)

lemmas style_write_fields [simp] = raster_onlyD [OF style_write_raster]

lemma style_write_ctx [simp]: "ctx (style_write c u r) = ctx r @ [c]"
  by (simp add: style_write_def)

lemma style_write_count [simp]:
  "styleChangeCount (styleManager (style_write c u r)) = styleChangeCount (styleManager r) + 1"
  by (simp add: style_write_def)

lemma style_write_cache [simp]:
  "currentStyle (styleManager (style_write c u r)) = u (currentStyle (styleManager r))"
  by (simp add: style_write_def)

lemmas setter_defs = setStrokeStyle_def setFillStyle_def setLineWidth_def setFont_def
  setTextAlign_def setTextBaseline_def setGlobalAlpha_def setGlobalCompositeOperation_def

lemma setters_raster:
  "raster_only r (setStrokeStyle s r)" "raster_only r (setFillStyle s r)"
  "raster_only r (setLineWidth w r)" "raster_only r (setFont s r)"
  "raster_only r (setTextAlign s r)" "raster_only r (setTextBaseline s r)"
  "raster_only r (setGlobalAlpha w r)" "raster_only r (setGlobalCompositeOperation s r)"
  by (simp_all add: setter_defs style_write_raster)

lemmas setters_fields [simp] = setters_raster [THEN raster_onlyD(1)]
  setters_raster [THEN raster_onlyD(2)] setters_raster [THEN raster_onlyD(3)]
  setters_raster [THEN raster_onlyD(4)] setters_raster [THEN raster_onlyD(5)]
  setters_raster [THEN raster_onlyD(6)] setters_raster [THEN raster_onlyD(7)]
  setters_raster [THEN raster_onlyD(8)]

lemma applyDashPattern_raster: "raster_only r (applyDashPattern p r)"
  by (simp add: applyDashPattern_def ctx_call_raster split: option.split)

lemmas applyDashPattern_fields [simp] = raster_onlyD [OF applyDashPattern_raster]

lemma applyDashPattern_styleManager [simp]:
  "styleManager (applyDashPattern p r) = styleManager r"
  by (simp add: applyDashPattern_def split: option.split)

lemma applyLineStyle_raster: "raster_only r (applyLineStyle X style r)"
  by (simp add: applyLineStyle_def Let_def raster_only_def)

lemmas applyLineStyle_fields [simp] = raster_onlyD [OF applyLineStyle_raster]

lemma applyShapeStyle_raster: "raster_only r (applyShapeStyle X style r)"
  by (simp add: applyShapeStyle_def Let_def raster_only_def split: option.split)

lemmas applyShapeStyle_fields [simp] = raster_onlyD [OF applyShapeStyle_raster]

lemma applyTextStyle_raster: "raster_only r (applyTextStyle X style r)"
  by (simp add: applyTextStyle_def Let_def raster_only_def)

lemmas applyTextStyle_fields [simp] = raster_onlyD [OF applyTextStyle_raster]

lemma fillAndStroke_raster: "raster_only r (fillAndStroke X style r)"
  by (simp add: fillAndStroke_def Let_def raster_only_def)

lemmas fillAndStroke_fields [simp] = raster_onlyD [OF fillAndStroke_raster]

lemma drawLineImmediate_raster: "raster_only r (drawLineImmediate X s e style r)"
  by (simp add: drawLineImmediate_def Let_def raster_only_def)

lemma drawCircleImmediate_raster: "raster_only r (drawCircleImmediate X c rad style r)"
  by (simp add: drawCircleImmediate_def Let_def raster_only_def)

lemma drawRectImmediate_raster: "raster_only r (drawRectImmediate X b style r)"
  by (simp add: drawRectImmediate_def Let_def raster_only_def)

lemma drawEllipseImmediate_raster: "raster_only r (drawEllipseImmediate X b style r)"
  by (simp add: drawEllipseImmediate_def Let_def raster_only_def)

lemma drawTextImmediate_raster: "raster_only r (drawTextImmediate X t p style r)"
  by (simp add: drawTextImmediate_def Let_def raster_only_def)

lemma drawPolygonImmediate_raster: "raster_only r (drawPolygonImmediate X vs style r)"
proof -
  have "raster_only q (foldl (\<lambda>q v. ctx_call (Ctx_lineTo (sx (worldToScreen (coordinateSystem q) v))
                            (sy (worldToScreen (coordinateSystem q) v))) q) q ws)" for q ws
    by (rule foldl_raster_only) (simp add: ctx_call_raster)
  note fold = raster_onlyD [OF this]
  show ?thesis
    by (simp add: drawPolygonImmediate_def Let_def raster_only_def fold)
qed

lemmas draw_fields [simp] =
  raster_onlyD [OF drawLineImmediate_raster] raster_onlyD [OF drawCircleImmediate_raster]
  raster_onlyD [OF drawRectImmediate_raster] raster_onlyD [OF drawEllipseImmediate_raster]
  raster_onlyD [OF drawTextImmediate_raster] raster_onlyD [OF drawPolygonImmediate_raster]

lemma applyTextureStyle_raster: "raster_only r (applyTextureStyle style pos t r)"
  by (simp add: applyTextureStyle_def Let_def raster_only_def split: option.split)

lemmas applyTextureStyle_fields [simp] = raster_onlyD [OF applyTextureStyle_raster]

lemma drawTextureImmediate_raster: "raster_only r (drawTextureImmediate t p style r)"
  by (simp add: drawTextureImmediate_def Let_def raster_only_def split: option.split)

lemma drawTextureRegionImmediate_raster:
  "raster_only r (drawTextureRegionImmediate t s d style r)"
  by (simp add: drawTextureRegionImmediate_def Let_def raster_only_def split: option.split)

lemmas drawTexture_fields [simp] =
  raster_onlyD [OF drawTextureImmediate_raster] raster_onlyD [OF drawTextureRegionImmediate_raster]

section \<open>The example renderer\<close>

lemma example_renderer_eq:
  "CanvasRenderer_new example_externals example_canvas cfg (Some 1) = Inr (example_renderer cfg)"
  by (simp add: example_renderer_def CanvasRenderer_new_def example_canvas_def)

lemma example_renderer_fields:
  "styleManager (example_renderer cfg) = StyleManager_new (enableStyleCaching cfg)"
  "batchManager (example_renderer cfg) = BatchManager_new (cfg_maxBatchSize cfg)"
  "transformStackDepth (example_renderer cfg) = 0"
  "config (example_renderer cfg) = cfg"
  "canvasStats (example_renderer cfg) = zero_CanvasRenderStats"
  "console (example_renderer cfg) = []"
  "coordinateSystem (example_renderer cfg) =
     CoordinateSystem_new (cfg_pixelsPerUnit cfg) \<lparr>width = 800, height = 600\<rparr> 1"
  "canvas (example_renderer cfg) = example_canvas"
  by (simp_all add: example_renderer_def CanvasRenderer_new_def example_canvas_def
      setupCanvas_def setupCoordinateSystem_def applyHighDPIScaling_def
      CoordinateSystem_new_def Let_def)

lemma example_renderer_ctx:
  "ctx (example_renderer DEFAULT_CANVAS_CONFIG) = [Ctx_translate 400 300, Ctx_scale 1 (- 1)]"
  by (simp add: example_renderer_def CanvasRenderer_new_def example_canvas_def
      DEFAULT_CANVAS_CONFIG_def setupCanvas_def setupCoordinateSystem_def
      applyHighDPIScaling_def CoordinateSystem_new_def Let_def)

section \<open>The style cache\<close>

lemma setters_write_on_empty_cache:
  assumes "currentStyle (styleManager q) = empty_StyleCacheEntry"
  shows "performs_write (Ctx_set_strokeStyle s) q (setStrokeStyle s q)"
    and "performs_write (Ctx_set_fillStyle s) q (setFillStyle s q)"
    and "performs_write (Ctx_set_lineWidth w) q (setLineWidth w q)"
    and "performs_write (Ctx_set_font s) q (setFont s q)"
    and "performs_write (Ctx_set_textAlign s) q (setTextAlign s q)"
    and "performs_write (Ctx_set_textBaseline s) q (setTextBaseline s q)"
    and "performs_write (Ctx_set_globalAlpha w) q (setGlobalAlpha w q)"
    and "performs_write (Ctx_set_globalCompositeOperation s) q (setGlobalCompositeOperation s q)"
  using assms
  by (simp_all add: performs_write_def setter_defs empty_StyleCacheEntry_def)

lemma restoreState_fields:
  "ctx (restoreState r) = ctx r @ [Ctx_restore]"
  "currentStyle (styleManager (restoreState r)) = empty_StyleCacheEntry"
  "styleChangeCount (styleManager (restoreState r)) = styleChangeCount (styleManager r)"
  by (simp_all add: restoreState_def Let_def)

lemma resetCache_fields:
  "ctx (resetCache r) = ctx r"
  "currentStyle (styleManager (resetCache r)) = empty_StyleCacheEntry"
  "styleChangeCount (styleManager (resetCache r)) = styleChangeCount (styleManager r)"
  by (simp_all add: resetCache_def)

text \<open>
  Claim C7. \<open>restoreState\<close> restores the raster context and empties the cached-style
  snapshot; \<open>resetCache\<close> empties the snapshot and leaves the raster context alone. In
  the state after either of them, each of the eight attribute setters, for any value
  (also the one applied just before), writes the attribute to the context and increments
  the style-change counter by one, whether caching is enabled or not.
\<close>

theorem cache_cleared_forces_write:
  "ctx (restoreState r) = ctx r @ [Ctx_restore]
   \<and> currentStyle (styleManager (restoreState r)) = empty_StyleCacheEntry
   \<and> ctx (resetCache r) = ctx r
   \<and> currentStyle (styleManager (resetCache r)) = empty_StyleCacheEntry
   \<and> (\<forall>q \<in> {restoreState r, resetCache r}.
        performs_write (Ctx_set_strokeStyle s) q (setStrokeStyle s q)
      \<and> performs_write (Ctx_set_fillStyle s) q (setFillStyle s q)
      \<and> performs_write (Ctx_set_lineWidth w) q (setLineWidth w q)
      \<and> performs_write (Ctx_set_font s) q (setFont s q)
      \<and> performs_write (Ctx_set_textAlign s) q (setTextAlign s q)
      \<and> performs_write (Ctx_set_textBaseline s) q (setTextBaseline s q)
      \<and> performs_write (Ctx_set_globalAlpha w) q (setGlobalAlpha w q)
      \<and> performs_write (Ctx_set_globalCompositeOperation s) q
           (setGlobalCompositeOperation s q))"
proof -
  have "currentStyle (styleManager q) = empty_StyleCacheEntry"
    if "q \<in> {restoreState r, resetCache r}" for q
    using that by (auto simp: restoreState_fields resetCache_fields)
  then show ?thesis
    by (simp only: restoreState_fields resetCache_fields setters_write_on_empty_cache
        simp_thms ball_simps insert_iff empty_iff)
qed

theorem cache_cleared_forces_write_witness:
  "setStrokeStyle ''#000000'' (setStrokeStyle ''#000000'' (example_renderer DEFAULT_CANVAS_CONFIG))
     = setStrokeStyle ''#000000'' (example_renderer DEFAULT_CANVAS_CONFIG)
   \<and> ctx (setStrokeStyle ''#000000'' (restoreState
        (setStrokeStyle ''#000000'' (example_renderer DEFAULT_CANVAS_CONFIG))))
     = [Ctx_translate 400 300, Ctx_scale 1 (- 1), Ctx_set_strokeStyle ''#000000'', Ctx_restore,
        Ctx_set_strokeStyle ''#000000'']
   \<and> styleChangeCount (styleManager (setStrokeStyle ''#000000'' (restoreState
        (setStrokeStyle ''#000000'' (example_renderer DEFAULT_CANVAS_CONFIG))))) = 2"
proof -
  let ?r0 = "example_renderer DEFAULT_CANVAS_CONFIG"
  let ?r1 = "setStrokeStyle ''#000000'' ?r0"
  have caching: "enableCaching (styleManager ?r0)"
    by (simp add: example_renderer_fields StyleManager_new_def DEFAULT_CANVAS_CONFIG_def)
  have first: "ctx ?r1 = [Ctx_translate 400 300, Ctx_scale 1 (- 1), Ctx_set_strokeStyle ''#000000'']"
    "styleChangeCount (styleManager ?r1) = 1"
    by (simp_all add: setStrokeStyle_def example_renderer_fields example_renderer_ctx
        StyleManager_new_def empty_StyleCacheEntry_def)
  have again: "setStrokeStyle ''#000000'' ?r1 = ?r1"
    using caching by (simp add: setStrokeStyle_def)
  from cache_cleared_forces_write [of ?r1 "''#000000''" 0]
  have "performs_write (Ctx_set_strokeStyle ''#000000'') (restoreState ?r1)
          (setStrokeStyle ''#000000'' (restoreState ?r1))"
    and "ctx (restoreState ?r1) = ctx ?r1 @ [Ctx_restore]"
    by simp_all
  then show ?thesis
    using first again by (simp add: performs_write_def restoreState_fields)
qed

section \<open>Foreign textures\<close>

text \<open>
  Claim C8. For a texture that is not a \<open>CanvasTexture\<close>, \<open>onDrawTexture\<close> and
  \<open>onDrawTextureRegion\<close> append the warning to the console and change nothing else: no
  call reaches the raster context, no counter moves, and the style manager, the batch
  manager and the transform depth are as before. The functions have no error result:
  no path through them throws.
\<close>

theorem foreign_texture_skipped:
  assumes "\<forall>t. texture \<noteq> IsCanvasTexture t"
  shows "onDrawTexture texture pos style r =
           r\<lparr>console := console r @ [''Invalid texture type for Canvas renderer'']\<rparr>
       \<and> onDrawTextureRegion texture sourceRect destRect style r =
           r\<lparr>console := console r @ [''Invalid texture type for Canvas renderer'']\<rparr>
       \<and> ctx (onDrawTexture texture pos style r) = ctx r
       \<and> ctx (onDrawTextureRegion texture sourceRect destRect style r) = ctx r
       \<and> canvasStats (onDrawTexture texture pos style r) = canvasStats r
       \<and> canvasStats (onDrawTextureRegion texture sourceRect destRect style r) = canvasStats r
       \<and> styleManager (onDrawTexture texture pos style r) = styleManager r
       \<and> styleManager (onDrawTextureRegion texture sourceRect destRect style r) = styleManager r
       \<and> batchManager (onDrawTexture texture pos style r) = batchManager r
       \<and> batchManager (onDrawTextureRegion texture sourceRect destRect style r) = batchManager r
       \<and> transformStackDepth (onDrawTexture texture pos style r) = transformStackDepth r
       \<and> transformStackDepth (onDrawTextureRegion texture sourceRect destRect style r) =
           transformStackDepth r"
  using assms
  by (cases texture)
     (simp_all add: onDrawTexture_def onDrawTextureRegion_def console_warn_def)

theorem foreign_texture_skipped_witness:
  "onDrawTexture (ForeignTexture 7) FixedVector2_ZERO None (example_renderer DEFAULT_CANVAS_CONFIG) =
     (example_renderer DEFAULT_CANVAS_CONFIG)\<lparr>console := [''Invalid texture type for Canvas renderer'']\<rparr>
   \<and> ctx (onDrawTexture (ForeignTexture 7) FixedVector2_ZERO None
        (example_renderer DEFAULT_CANVAS_CONFIG)) = [Ctx_translate 400 300, Ctx_scale 1 (- 1)]
   \<and> drawCalls (canvasStats (onDrawTexture (ForeignTexture 7) FixedVector2_ZERO None
        (example_renderer DEFAULT_CANVAS_CONFIG))) = 0"
proof -
  have h: "\<forall>t. ForeignTexture 7 \<noteq> IsCanvasTexture t" by simp
  show ?thesis
    using foreign_texture_skipped [OF h, of FixedVector2_ZERO None "example_renderer DEFAULT_CANVAS_CONFIG"]
    by (simp add: example_renderer_fields example_renderer_ctx zero_CanvasRenderStats_def)
qed

section \<open>The batch buffer\<close>

text \<open>
  Claim C9. When the buffer of pending commands is empty, \<open>flushBatch\<close> returns the state
  it was given: no style change, no counter incremented, no raster operation, and the
  batching flag and the buffer as they were, whether batching is enabled or not.
\<close>

theorem flushBatch_empty_noop:
  assumes "batchCommands (batchManager r) = []"
  shows "flushBatch X r = r"
  using assms by (simp add: flushBatch_def)

theorem flushBatch_empty_noop_witness:
  "\<not> batchingEnabled (batchManager (example_renderer DEFAULT_CANVAS_CONFIG))
   \<and> batchCommands (batchManager (example_renderer DEFAULT_CANVAS_CONFIG)) = []
   \<and> flushBatch example_externals (example_renderer DEFAULT_CANVAS_CONFIG)
       = example_renderer DEFAULT_CANVAS_CONFIG"
proof -
  have h: "batchCommands (batchManager (example_renderer DEFAULT_CANVAS_CONFIG)) = []"
    by (simp add: example_renderer_fields BatchManager_new_def)
  show ?thesis
    using flushBatch_empty_noop [OF h, of example_externals] h
    by (simp add: example_renderer_fields BatchManager_new_def)
qed

text \<open>
  Claim C10. After \<open>beginBatch\<close> the buffer is empty, batching is enabled and the counter
  of batched draw calls is zero. The raster context and the style manager are untouched,
  the resulting state does not depend on the commands that were buffered before, and
  ending or flushing the fresh batch issues no raster operation: commands buffered at
  the time of a second \<open>beginBatch\<close> are dropped without being executed.
\<close>

theorem beginBatch_resets:
  "batchCommands (batchManager (beginBatch r)) = []
   \<and> batchingEnabled (batchManager (beginBatch r))
   \<and> batchedDrawCallCount (batchManager (beginBatch r)) = 0
   \<and> ctx (beginBatch r) = ctx r
   \<and> styleManager (beginBatch r) = styleManager r
   \<and> beginBatch (r\<lparr>batchManager := (batchManager r)\<lparr>batchCommands := cmds\<rparr>\<rparr>) = beginBatch r
   \<and> ctx (endBatch X (beginBatch r)) = ctx r
   \<and> ctx (flushBatch X (beginBatch r)) = ctx r
   \<and> batchedDrawCallCount (batchManager (endBatch X (beginBatch r))) = 0"
  by (simp add: beginBatch_def endBatch_def flushBatch_def executeBatch_def)

theorem beginBatch_resets_witness:
  "batchCommands (batchManager
      (addCircle example_externals FixedVector2_ZERO 1 filled
         (beginBatch (example_renderer DEFAULT_CANVAS_CONFIG))))
     = [circleCommand (FixedVector2_ZERO, 1, filled)]
   \<and> batchCommands (batchManager (beginBatch
      (addCircle example_externals FixedVector2_ZERO 1 filled
         (beginBatch (example_renderer DEFAULT_CANVAS_CONFIG))))) = []
   \<and> ctx (endBatch example_externals (beginBatch
      (addCircle example_externals FixedVector2_ZERO 1 filled
         (beginBatch (example_renderer DEFAULT_CANVAS_CONFIG)))))
     = [Ctx_translate 400 300, Ctx_scale 1 (- 1)]"
proof -
  let ?r1 = "addCircle example_externals FixedVector2_ZERO 1 filled
         (beginBatch (example_renderer DEFAULT_CANVAS_CONFIG))"
  have buf: "?r1 = (beginBatch (example_renderer DEFAULT_CANVAS_CONFIG))
      \<lparr>batchManager := (batchManager (beginBatch (example_renderer DEFAULT_CANVAS_CONFIG)))
         \<lparr>batchCommands := [circleCommand (FixedVector2_ZERO, 1, filled)]\<rparr>\<rparr>"
    by (simp add: addCircle_def addCommand_def beginBatch_def Let_def circleCommand_def
        example_renderer_fields BatchManager_new_def DEFAULT_CANVAS_CONFIG_def)
  have c: "ctx ?r1 = [Ctx_translate 400 300, Ctx_scale 1 (- 1)]"
    by (simp only: buf) (simp add: beginBatch_def example_renderer_ctx)
  have b: "batchCommands (batchManager ?r1) = [circleCommand (FixedVector2_ZERO, 1, filled)]"
    by (simp only: buf) simp
  show ?thesis
    using beginBatch_resets [of ?r1 _ example_externals] b c by simp
qed

section \<open>Applying a line style twice\<close>

lemma applyLineStyle_count:
  "styleChangeCount (styleManager (applyLineStyle X style r)) =
     styleChangeCount (styleManager r)
     + (if enableCaching (styleManager r)
        then (if strokeStyle (currentStyle (styleManager r)) = Some (toHex X (line_color style)) then 0 else 1)
           + (if lineWidth (currentStyle (styleManager r)) = Some (toNumber (thickness style)) then 0 else 1)
        else 2)"
  by (simp add: applyLineStyle_def Let_def setStrokeStyle_def setLineWidth_def)

lemma applyLineStyle_cache:
  "strokeStyle (currentStyle (styleManager (applyLineStyle X style r))) = Some (toHex X (line_color style))"
  "lineWidth (currentStyle (styleManager (applyLineStyle X style r))) = Some (toNumber (thickness style))"
  by (simp_all add: applyLineStyle_def Let_def setStrokeStyle_def setLineWidth_def)

text \<open>
  Claim C3, as stated, fails on a freshly built renderer: \<open>applyLineStyle\<close> sets two
  attributes, the stroke paint and the line width, and each setter counts its own write.
  Two calls with the same style leave the counter at two with caching enabled, and at
  four with caching disabled.
\<close>

theorem applyLineStyle_twice_not_once_counterexample:
  "styleChangeCount (styleManager (example_renderer DEFAULT_CANVAS_CONFIG)) = 0
   \<and> enableCaching (styleManager (example_renderer DEFAULT_CANVAS_CONFIG))
   \<and> styleChangeCount (styleManager
        (applyLineStyle example_externals example_line
          (applyLineStyle example_externals example_line
            (example_renderer DEFAULT_CANVAS_CONFIG)))) = 2
   \<and> styleChangeCount (styleManager
         (example_renderer (DEFAULT_CANVAS_CONFIG\<lparr>enableStyleCaching := False\<rparr>))) = 0
   \<and> \<not> enableCaching (styleManager
         (example_renderer (DEFAULT_CANVAS_CONFIG\<lparr>enableStyleCaching := False\<rparr>)))
   \<and> styleChangeCount (styleManager
        (applyLineStyle example_externals example_line
          (applyLineStyle example_externals example_line
            (example_renderer (DEFAULT_CANVAS_CONFIG\<lparr>enableStyleCaching := False\<rparr>))))) = 4"
  by (simp add: applyLineStyle_count applyLineStyle_cache example_renderer_fields
      StyleManager_new_def DEFAULT_CANVAS_CONFIG_def empty_StyleCacheEntry_def)

text \<open>
  Claim C3, amended. With caching enabled, the second of two consecutive calls of
  \<open>applyLineStyle\<close> with the same style adds nothing to the style-change counter, so the
  two calls together add what the first one writes: one for the stroke paint and one
  for the line width, each only when it differs from the cached value, which makes two
  from an empty cache. With caching disabled every call adds two, four in total.
\<close>

theorem applyLineStyle_twice_increments:
  "styleChangeCount (styleManager (applyLineStyle X style (applyLineStyle X style r))) =
     styleChangeCount (styleManager r)
     + (if enableCaching (styleManager r)
        then (if strokeStyle (currentStyle (styleManager r)) = Some (toHex X (line_color style)) then 0 else 1)
           + (if lineWidth (currentStyle (styleManager r)) = Some (toNumber (thickness style)) then 0 else 1)
        else 4)
   \<and> (enableCaching (styleManager r) \<longrightarrow>
        styleChangeCount (styleManager (applyLineStyle X style (applyLineStyle X style r))) =
        styleChangeCount (styleManager (applyLineStyle X style r)))
   \<and> (enableCaching (styleManager r) \<and> currentStyle (styleManager r) = empty_StyleCacheEntry \<longrightarrow>
        styleChangeCount (styleManager (applyLineStyle X style (applyLineStyle X style r))) =
        styleChangeCount (styleManager r) + 2)"
  by (simp add: applyLineStyle_count [of X style "applyLineStyle X style r"] applyLineStyle_cache
      applyLineStyle_count [of X style r] empty_StyleCacheEntry_def)

theorem applyLineStyle_twice_increments_witness:
  "enableCaching (styleManager (example_renderer DEFAULT_CANVAS_CONFIG))
   \<and> currentStyle (styleManager (example_renderer DEFAULT_CANVAS_CONFIG)) = empty_StyleCacheEntry
   \<and> styleChangeCount (styleManager
        (applyLineStyle example_externals example_line
          (applyLineStyle example_externals example_line
            (example_renderer DEFAULT_CANVAS_CONFIG)))) = 2
   \<and> styleChangeCount (styleManager
        (applyLineStyle example_externals example_line
            (example_renderer DEFAULT_CANVAS_CONFIG))) = 2"
proof -
  let ?r0 = "example_renderer DEFAULT_CANVAS_CONFIG"
  have a: "enableCaching (styleManager ?r0)"
    and b: "currentStyle (styleManager ?r0) = empty_StyleCacheEntry"
    and c: "styleChangeCount (styleManager ?r0) = 0"
    by (simp_all add: example_renderer_fields StyleManager_new_def DEFAULT_CANVAS_CONFIG_def)
  show ?thesis
    using applyLineStyle_twice_increments [of example_externals example_line ?r0] a b c
    by simp
qed

section \<open>Grouping a batch of circles\<close>

lemma groupFold_two:
  assumes "k1 \<noteq> k2" and "\<forall>c \<in> set cmds. getGroupKey X c = k1 \<or> getGroupKey X c = k2"
  shows "foldl (\<lambda>gs c. groupStep (getGroupKey X c) c gs) [(k1, g1), (k2, g2)] cmds =
           [(k1, g1\<lparr>grp_commands := grp_commands g1 @ filter (\<lambda>c. getGroupKey X c = k1) cmds\<rparr>),
            (k2, g2\<lparr>grp_commands := grp_commands g2 @ filter (\<lambda>c. getGroupKey X c = k2) cmds\<rparr>)]"
  using assms
proof (induction cmds arbitrary: g1 g2)
  case Nil
  show ?case by simp
next
  case (Cons c cmds)
  then show ?case by auto
qed

lemma groupFold_one:
  assumes "k1 \<noteq> k2" and "\<forall>c \<in> set cmds. getGroupKey X c = k1 \<or> getGroupKey X c = k2"
    and "\<exists>c \<in> set cmds. getGroupKey X c = k2"
  shows "foldl (\<lambda>gs c. groupStep (getGroupKey X c) c gs) [(k1, g1)] cmds =
           [(k1, g1\<lparr>grp_commands := grp_commands g1 @ filter (\<lambda>c. getGroupKey X c = k1) cmds\<rparr>),
            (k2, \<lparr>grp_type = cmd_type (hd (filter (\<lambda>c. getGroupKey X c = k2) cmds)),
                  grp_style = cmd_style (hd (filter (\<lambda>c. getGroupKey X c = k2) cmds)),
                  grp_commands = filter (\<lambda>c. getGroupKey X c = k2) cmds\<rparr>)]"
  using assms
proof (induction cmds arbitrary: g1)
  case Nil
  then show ?case by simp
next
  case (Cons c cmds)
  show ?case
  proof (cases "getGroupKey X c = k1")
    case True
    with Cons.prems have ex: "\<exists>c \<in> set cmds. getGroupKey X c = k2" by auto
    from Cons.prems have all: "\<forall>c \<in> set cmds. getGroupKey X c = k1 \<or> getGroupKey X c = k2" by simp
    show ?thesis
      using True Cons.prems(1) Cons.IH [OF Cons.prems(1) all ex] by simp
  next
    case False
    with Cons.prems have k2: "getGroupKey X c = k2" by simp
    from Cons.prems have all: "\<forall>c \<in> set cmds. getGroupKey X c = k1 \<or> getGroupKey X c = k2" by simp
    show ?thesis
      using False k2 Cons.prems(1) groupFold_two [OF Cons.prems(1) all] by simp
  qed
qed

lemma groupCommands_two_keys:
  assumes "k1 \<noteq> k2" and "\<forall>c \<in> set (c1 # cmds). getGroupKey X c = k1 \<or> getGroupKey X c = k2"
    and "getGroupKey X c1 = k1" and "\<exists>c \<in> set cmds. getGroupKey X c = k2"
  shows "groupCommands X (c1 # cmds) =
           [\<lparr>grp_type = cmd_type c1, grp_style = cmd_style c1,
             grp_commands = filter (\<lambda>c. getGroupKey X c = k1) (c1 # cmds)\<rparr>,
            \<lparr>grp_type = cmd_type (hd (filter (\<lambda>c. getGroupKey X c = k2) cmds)),
             grp_style = cmd_style (hd (filter (\<lambda>c. getGroupKey X c = k2) cmds)),
             grp_commands = filter (\<lambda>c. getGroupKey X c = k2) (c1 # cmds)\<rparr>]"
proof -
  from assms have all: "\<forall>c \<in> set cmds. getGroupKey X c = k1 \<or> getGroupKey X c = k2" by simp
  show ?thesis
    using assms(1,3) groupFold_one [OF assms(1) all assms(4)]
    by (simp add: groupCommands_def)
qed

lemma executeCircleGroup_drawCircles:
  assumes "\<forall>c \<in> set cs. snd (snd c) = s"
  shows "executeCircleGroup X
           \<lparr>grp_type = t, grp_style = ShapeSt s, grp_commands = map circleCommand cs\<rparr> r
         = drawCircles X cs r"
proof -
  have "foldl (\<lambda>q command.
                   (case cmd_data command of
                      CircleDrawData center radius \<Rightarrow> drawCircleImmediate X center radius s q
                    | _ \<Rightarrow> q)) q (map circleCommand cs)
        = foldl (\<lambda>q c. drawCircleImmediate X (fst c) (fst (snd c)) (snd (snd c)) q) q cs" for q
    using assms by (induction cs arbitrary: q) (simp_all add: circleCommand_def)
  then show ?thesis by (simp add: executeCircleGroup_def drawCircles_def)
qed

lemma drawCircles_raster: "raster_only r (drawCircles X cs r)"
  unfolding drawCircles_def by (rule foldl_raster_only) (rule drawCircleImmediate_raster)

lemmas drawCircles_fields [simp] = raster_onlyD [OF drawCircles_raster]

lemma filter_circle_key:
  assumes "stringify X (ShapeSt s1) \<noteq> stringify X (ShapeSt s2)"
    and "\<forall>c \<in> set cs. snd (snd c) = s1 \<or> snd (snd c) = s2"
  shows "filter (\<lambda>c. getGroupKey X c = ''circle_'' @ stringify X (ShapeSt s1)) (map circleCommand cs)
         = map circleCommand (filter (\<lambda>c. snd (snd c) = s1) cs)"
    and "filter (\<lambda>c. getGroupKey X c = ''circle_'' @ stringify X (ShapeSt s2)) (map circleCommand cs)
         = map circleCommand (filter (\<lambda>c. snd (snd c) = s2) cs)"
  using assms
  by (induction cs) (auto simp: getGroupKey_def circleCommand_def kind_name_def)

text \<open>
  What \<open>endBatch\<close> does with a buffer of circle commands that use exactly two styles
  \<open>s1\<close> and \<open>s2\<close> with different serialisations, \<open>s1\<close> being the style of the first
  command: \<open>groupCommands\<close> yields two groups, the group of \<open>s1\<close> first, each holding its
  commands in arrival order; the circles of \<open>s1\<close> are drawn, then those of \<open>s2\<close>, and the
  counter of batched draw calls grows by two.
\<close>

lemma endBatch_two_circle_styles:
  assumes enabled: "batchingEnabled (batchManager r)"
    and buffer: "batchCommands (batchManager r) = map circleCommand (c1 # cs)"
    and first: "snd (snd c1) = s1"
    and styles: "\<forall>c \<in> set cs. snd (snd c) = s1 \<or> snd (snd c) = s2"
    and second: "\<exists>c \<in> set cs. snd (snd c) = s2"
    and keys: "stringify X (ShapeSt s1) \<noteq> stringify X (ShapeSt s2)"
  shows "groupCommands X (batchCommands (batchManager r)) =
           [\<lparr>grp_type = K_circle, grp_style = ShapeSt s1,
             grp_commands = map circleCommand (filter (\<lambda>c. snd (snd c) = s1) (c1 # cs))\<rparr>,
            \<lparr>grp_type = K_circle, grp_style = ShapeSt s2,
             grp_commands = map circleCommand (filter (\<lambda>c. snd (snd c) = s2) (c1 # cs))\<rparr>]
       \<and> endBatch X r =
           (drawCircles X (filter (\<lambda>c. snd (snd c) = s2) (c1 # cs))
              (drawCircles X (filter (\<lambda>c. snd (snd c) = s1) (c1 # cs)) r))
           \<lparr>batchManager := (batchManager r)
              \<lparr>batchedDrawCallCount := batchedDrawCallCount (batchManager r) + 2,
               batchingEnabled := False, batchCommands := []\<rparr>\<rparr>
       \<and> batchedDrawCallCount (batchManager (endBatch X r)) =
           batchedDrawCallCount (batchManager r) + 2"
proof -
  let ?k1 = "''circle_'' @ stringify X (ShapeSt s1)"
  let ?k2 = "''circle_'' @ stringify X (ShapeSt s2)"
  let ?cmds = "map circleCommand cs"
  define f1 where "f1 = filter (\<lambda>c. snd (snd c) = s1) (c1 # cs)"
  define f2 where "f2 = filter (\<lambda>c. snd (snd c) = s2) (c1 # cs)"
  define g1 where "g1 = \<lparr>grp_type = K_circle, grp_style = ShapeSt s1,
                          grp_commands = map circleCommand f1\<rparr>"
  define g2 where "g2 = \<lparr>grp_type = K_circle, grp_style = ShapeSt s2,
                          grp_commands = map circleCommand f2\<rparr>"
  have k: "?k1 \<noteq> ?k2" using keys by simp
  have all': "\<forall>c \<in> set (c1 # cs). snd (snd c) = s1 \<or> snd (snd c) = s2"
    using first styles by simp
  have key_of: "getGroupKey X (circleCommand c) = ''circle_'' @ stringify X (ShapeSt (snd (snd c)))" for c
    by (simp add: getGroupKey_def circleCommand_def kind_name_def)
  have all: "\<forall>c \<in> set (circleCommand c1 # ?cmds). getGroupKey X c = ?k1 \<or> getGroupKey X c = ?k2"
    using all' by (auto simp: key_of)
  have k1: "getGroupKey X (circleCommand c1) = ?k1" using first by (simp add: key_of)
  have ex: "\<exists>c \<in> set ?cmds. getGroupKey X c = ?k2" using second by (auto simp: key_of)
  have f2ne: "filter (\<lambda>c. snd (snd c) = s2) cs \<noteq> []"
    using second by (auto simp: filter_empty_conv)
  have hd2: "hd (filter (\<lambda>c. getGroupKey X c = ?k2) ?cmds)
      = circleCommand (hd (filter (\<lambda>c. snd (snd c) = s2) cs))"
    using filter_circle_key(2) [OF keys styles] f2ne by (simp add: hd_map)
  have st2: "snd (snd (hd (filter (\<lambda>c. snd (snd c) = s2) cs))) = s2"
    using hd_in_set [OF f2ne] by simp
  have "groupCommands X (circleCommand c1 # ?cmds) =
         [\<lparr>grp_type = cmd_type (circleCommand c1), grp_style = cmd_style (circleCommand c1),
           grp_commands = filter (\<lambda>c. getGroupKey X c = ?k1) (circleCommand c1 # ?cmds)\<rparr>,
          \<lparr>grp_type = cmd_type (hd (filter (\<lambda>c. getGroupKey X c = ?k2) ?cmds)),
           grp_style = cmd_style (hd (filter (\<lambda>c. getGroupKey X c = ?k2) ?cmds)),
           grp_commands = filter (\<lambda>c. getGroupKey X c = ?k2) (circleCommand c1 # ?cmds)\<rparr>]"
    by (rule groupCommands_two_keys [OF k all k1 ex])
  moreover have "filter (\<lambda>c. getGroupKey X c = ?k1) (circleCommand c1 # ?cmds) = map circleCommand f1"
    using filter_circle_key(1) [OF keys all'] by (simp add: f1_def)
  moreover have "filter (\<lambda>c. getGroupKey X c = ?k2) (circleCommand c1 # ?cmds) = map circleCommand f2"
    using filter_circle_key(2) [OF keys all'] by (simp add: f2_def)
  moreover have "cmd_type (circleCommand c) = K_circle" for c by (simp add: circleCommand_def)
  moreover have "cmd_style (circleCommand c) = ShapeSt (snd (snd c))" for c
    by (simp add: circleCommand_def)
  ultimately have "groupCommands X (circleCommand c1 # ?cmds) = [g1, g2]"
    using first hd2 st2 by (simp add: g1_def g2_def)
  then have groups: "groupCommands X (batchCommands (batchManager r)) = [g1, g2]"
    using buffer by simp
  have e1: "executeGroup X g1 q = drawCircles X f1 q" for q
    unfolding g1_def
    by (simp add: executeGroup_def executeCircleGroup_drawCircles f1_def)
  have e2: "executeGroup X g2 q = drawCircles X f2 q" for q
    unfolding g2_def
    by (simp add: executeGroup_def executeCircleGroup_drawCircles f2_def)
  have exec: "executeGroups X [g1, g2] r = drawCircles X f2 (drawCircles X f1 r)"
    by (simp add: executeGroups_def e1 e2)
  have nonempty: "length (batchCommands (batchManager r)) \<noteq> 0"
    using buffer by simp
  have batch: "executeBatch X r =
      (drawCircles X f2 (drawCircles X f1 r))
        \<lparr>batchManager := (batchManager r)
           \<lparr>batchedDrawCallCount := batchedDrawCallCount (batchManager r) + 2\<rparr>\<rparr>"
    using nonempty by (simp add: executeBatch_def Let_def groups exec)
  have fin: "endBatch X r =
      (drawCircles X f2 (drawCircles X f1 r))
        \<lparr>batchManager := (batchManager r)
           \<lparr>batchedDrawCallCount := batchedDrawCallCount (batchManager r) + 2,
            batchingEnabled := False, batchCommands := []\<rparr>\<rparr>"
    using enabled by (simp add: endBatch_def Let_def batch)
  have count: "batchedDrawCallCount (batchManager (endBatch X r)) =
      batchedDrawCallCount (batchManager r) + 2"
    by (simp add: fin)
  show ?thesis
    using groups fin count unfolding g1_def g2_def f1_def f2_def by blast
qed

text \<open>
  Consecutive calls of \<open>addCircle\<close> while batching is enabled put their commands into
  the buffer in arrival order, as long as the buffer stays below \<open>maxBatchSize\<close>; a
  buffer that reaches it is flushed at once.
\<close>

lemma addCircles_buffers:
  assumes "batchingEnabled (batchManager r)"
    and "of_nat (length (batchCommands (batchManager r)) + length cs) < maxBatchSize (batchManager r)"
  shows "addCircles X cs r =
           r\<lparr>batchManager := (batchManager r)
                \<lparr>batchCommands := batchCommands (batchManager r) @ map circleCommand cs\<rparr>\<rparr>"
  using assms
proof (induction cs arbitrary: r)
  case Nil
  show ?case by (simp add: addCircles_def)
next
  case (Cons c cs)
  let ?r1 = "r\<lparr>batchManager := (batchManager r)
                \<lparr>batchCommands := batchCommands (batchManager r) @ [circleCommand c]\<rparr>\<rparr>"
  from Cons.prems have small: "\<not> maxBatchSize (batchManager r)
      \<le> of_nat (Suc (length (batchCommands (batchManager r))))"
    by (simp add: not_le)
  have step: "addCircle X (fst c) (fst (snd c)) (snd (snd c)) r = ?r1"
    using Cons.prems(1) small
    by (simp add: addCircle_def addCommand_def Let_def circleCommand_def)
  have "addCircles X cs ?r1 =
      ?r1\<lparr>batchManager := (batchManager ?r1)
            \<lparr>batchCommands := batchCommands (batchManager ?r1) @ map circleCommand cs\<rparr>\<rparr>"
    using Cons.prems by (intro Cons.IH) simp_all
  then show ?case
    by (simp add: addCircles_def step)
qed

section \<open>What batching leaves unchanged\<close>

lemma draw_only_refl [simp]: "draw_only r r"
  by (simp add: draw_only_def)

lemma draw_only_trans: "draw_only a b \<Longrightarrow> draw_only b c \<Longrightarrow> draw_only a c"
  by (simp add: draw_only_def)

lemma raster_only_draw_only: "raster_only r r' \<Longrightarrow> draw_only r r'"
  by (simp add: raster_only_def draw_only_def)

lemma draw_onlyD:
  assumes "draw_only r r'"
  shows "canvas r' = canvas r" and "console r' = console r" and "config r' = config r"
    and "coordinateSystem r' = coordinateSystem r"
    and "transformStackDepth r' = transformStackDepth r" and "canvasStats r' = canvasStats r"
    and "enableCaching (styleManager r') = enableCaching (styleManager r)"
    and "maxBatchSize (batchManager r') = maxBatchSize (batchManager r)"
  using assms by (simp_all add: draw_only_def)

lemma executeLineGroup_raster: "raster_only r (executeLineGroup X g r)"
proof -
  have "raster_only q (foldl (\<lambda>q command.
                       (case cmd_data command of
                          LineDrawData s e \<Rightarrow>
                            (let start = worldToScreen (coordinateSystem q) s;
                                 endPos = worldToScreen (coordinateSystem q) e
                             in ctx_call (Ctx_lineTo (sx endPos) (sy endPos))
                                  (ctx_call (Ctx_moveTo (sx start) (sy start)) q))
                        | _ \<Rightarrow> q)) q cmds)" for q cmds
    by (rule foldl_raster_only) (simp add: raster_only_def Let_def split: DrawData.split)
  note fold = raster_onlyD [OF this]
  show ?thesis
    by (cases "grp_style g") (simp_all add: executeLineGroup_def Let_def raster_only_def fold)
qed

lemma executeCircleGroup_raster: "raster_only r (executeCircleGroup X g r)"
proof -
  have "raster_only q (foldl (\<lambda>q command.
                   (case cmd_data command of
                      CircleDrawData center radius \<Rightarrow> drawCircleImmediate X center radius style q
                    | _ \<Rightarrow> q)) q cmds)" for q cmds style
    by (rule foldl_raster_only) (simp add: raster_only_def split: DrawData.split)
  note fold = this
  show ?thesis
    by (cases "grp_style g") (simp_all only: executeCircleGroup_def Style.case fold raster_only_refl)
qed

lemma executeRectGroup_raster: "raster_only r (executeRectGroup X g r)"
proof -
  have "raster_only q (foldl (\<lambda>q command.
                   (case cmd_data command of
                      RectDrawData a b w h \<Rightarrow>
                        drawRectImmediate X (FixedRect_new a b w h) style q
                    | _ \<Rightarrow> q)) q cmds)" for q cmds style
    by (rule foldl_raster_only) (simp add: raster_only_def split: DrawData.split)
  note fold = this
  show ?thesis
    by (cases "grp_style g") (simp_all only: executeRectGroup_def Style.case fold raster_only_refl)
qed

lemma executePolygonGroup_raster: "raster_only r (executePolygonGroup X g r)"
proof -
  have "raster_only q (foldl (\<lambda>q command.
                   (case cmd_data command of
                      PolygonDrawData vertices \<Rightarrow> drawPolygonImmediate X vertices style q
                    | _ \<Rightarrow> q)) q cmds)" for q cmds style
    by (rule foldl_raster_only) (simp add: raster_only_def split: DrawData.split)
  note fold = this
  show ?thesis
    by (cases "grp_style g") (simp_all only: executePolygonGroup_def Style.case fold raster_only_refl)
qed

lemma executeTextGroup_raster: "raster_only r (executeTextGroup X g r)"
proof -
  have "raster_only q (foldl (\<lambda>q command.
                   (case cmd_data command of
                      TextDrawData txt pos \<Rightarrow> drawTextImmediate X txt pos style q
                    | _ \<Rightarrow> q)) q cmds)" for q cmds style
    by (rule foldl_raster_only) (simp add: raster_only_def split: DrawData.split)
  note fold = this
  show ?thesis
    by (cases "grp_style g") (simp_all only: executeTextGroup_def Style.case fold raster_only_refl)
qed

lemma executeGroup_raster: "raster_only r (executeGroup X g r)"
  by (simp add: executeGroup_def executeLineGroup_raster executeCircleGroup_raster
      executeRectGroup_raster executePolygonGroup_raster executeTextGroup_raster
      split: kind.split)

lemma executeGroups_raster: "raster_only r (executeGroups X gs r)"
  unfolding executeGroups_def by (rule foldl_raster_only) (rule executeGroup_raster)

lemmas executeGroups_fields [simp] = raster_onlyD [OF executeGroups_raster]

lemma executeBatch_draw_only: "draw_only r (executeBatch X r)"
  by (simp add: executeBatch_def Let_def draw_only_def)

lemmas executeBatch_fields [simp] = draw_onlyD [OF executeBatch_draw_only]

lemma executeBatch_empty [simp]: "batchCommands (batchManager r) = [] \<Longrightarrow> executeBatch X r = r"
  by (simp add: executeBatch_def)

lemma endBatch_draw_only: "draw_only r (endBatch X r)"
  by (simp add: endBatch_def Let_def draw_only_def)

lemma flushBatch_draw_only: "draw_only r (flushBatch X r)"
  by (simp add: flushBatch_def Let_def draw_only_def)

lemmas endBatch_fields [simp] = draw_onlyD [OF endBatch_draw_only]
lemmas flushBatch_fields [simp] = draw_onlyD [OF flushBatch_draw_only]

lemma addCommand_draw_only: "draw_only r (addCommand X c r)"
  by (simp add: addCommand_def Let_def draw_only_def)

lemmas addCommand_fields [simp] = draw_onlyD [OF addCommand_draw_only]

lemma add_draw_only:
  "draw_only r (addLine X s e ls r)" "draw_only r (addCircle X c rad ss r)"
  "draw_only r (addRect X b ss r)" "draw_only r (addPolygon X vs ss r)"
  "draw_only r (addText X t p ts r)"
  by (simp_all add: addLine_def addCircle_def addRect_def addPolygon_def addText_def
      draw_only_def)

lemmas add_fields [simp] = add_draw_only [THEN draw_onlyD(1)] add_draw_only [THEN draw_onlyD(2)]
  add_draw_only [THEN draw_onlyD(3)] add_draw_only [THEN draw_onlyD(4)]
  add_draw_only [THEN draw_onlyD(5)] add_draw_only [THEN draw_onlyD(6)]
  add_draw_only [THEN draw_onlyD(7)] add_draw_only [THEN draw_onlyD(8)]

section \<open>Two styles of circles in one batch\<close>

text \<open>
  Claim C2, as stated for any sequence of batched circles, fails once the sequence
  reaches \<open>maxBatchSize\<close>: \<open>addCommand\<close> flushes a full buffer at once. With a maximum of
  two, the second of three circles triggers the flush, which executes two groups; the
  third circle is alone in the buffer when \<open>endBatch\<close> runs, so \<open>endBatch\<close> executes one
  group and takes the counter from two to three.
\<close>

theorem two_circle_styles_auto_flush_counterexample:
  "batchCommands (batchManager
      (addCircles example_externals
         [(FixedVector2_ZERO, 1, filled), (FixedVector2_ZERO, 2, outlined),
          (FixedVector2_ZERO, 3, filled)]
         (beginBatch (example_renderer (DEFAULT_CANVAS_CONFIG\<lparr>cfg_maxBatchSize := 2\<rparr>)))))
     = [circleCommand (FixedVector2_ZERO, 3, filled)]
   \<and> length (groupCommands example_externals (batchCommands (batchManager
      (addCircles example_externals
         [(FixedVector2_ZERO, 1, filled), (FixedVector2_ZERO, 2, outlined),
          (FixedVector2_ZERO, 3, filled)]
         (beginBatch (example_renderer (DEFAULT_CANVAS_CONFIG\<lparr>cfg_maxBatchSize := 2\<rparr>))))))) = 1
   \<and> batchedDrawCallCount (batchManager
      (addCircles example_externals
         [(FixedVector2_ZERO, 1, filled), (FixedVector2_ZERO, 2, outlined),
          (FixedVector2_ZERO, 3, filled)]
         (beginBatch (example_renderer (DEFAULT_CANVAS_CONFIG\<lparr>cfg_maxBatchSize := 2\<rparr>))))) = 2
   \<and> batchedDrawCallCount (batchManager (endBatch example_externals
      (addCircles example_externals
         [(FixedVector2_ZERO, 1, filled), (FixedVector2_ZERO, 2, outlined),
          (FixedVector2_ZERO, 3, filled)]
         (beginBatch (example_renderer (DEFAULT_CANVAS_CONFIG\<lparr>cfg_maxBatchSize := 2\<rparr>)))))) = 3"
proof -
  let ?X = example_externals
  let ?b = "beginBatch (example_renderer (DEFAULT_CANVAS_CONFIG\<lparr>cfg_maxBatchSize := 2\<rparr>))"
  let ?a1 = "addCircle ?X FixedVector2_ZERO 1 filled ?b"
  let ?a2 = "addCircle ?X FixedVector2_ZERO 2 outlined ?a1"
  let ?a3 = "addCircle ?X FixedVector2_ZERO 3 filled ?a2"
  have b: "batchManager ?b = \<lparr>batchCommands = [], maxBatchSize = 2, batchingEnabled = True,
      batchedDrawCallCount = 0\<rparr>"
    by (simp add: beginBatch_def example_renderer_fields BatchManager_new_def
        DEFAULT_CANVAS_CONFIG_def)
  have a1: "batchManager ?a1 = \<lparr>batchCommands = [circleCommand (FixedVector2_ZERO, 1, filled)],
      maxBatchSize = 2, batchingEnabled = True, batchedDrawCallCount = 0\<rparr>"
    by (simp add: addCircle_def addCommand_def Let_def b circleCommand_def)
  have keys: "getGroupKey ?X (circleCommand (p, q, filled)) \<noteq>
      getGroupKey ?X (circleCommand (p', q', outlined))" for p q p' q'
    by (simp add: getGroupKey_def circleCommand_def example_externals_def filled_def outlined_def)
  have two: "length (groupCommands ?X [circleCommand (FixedVector2_ZERO, 1, filled),
      circleCommand (FixedVector2_ZERO, 2, outlined)]) = 2"
    using keys by (simp add: groupCommands_def)
  have a2: "batchManager ?a2 = \<lparr>batchCommands = [],
      maxBatchSize = 2, batchingEnabled = True, batchedDrawCallCount = 2\<rparr>"
    by (simp add: addCircle_def [of ?X _ _ _ ?a1] addCommand_def Let_def a1 flushBatch_def
        executeBatch_def circleCommand_def two [unfolded circleCommand_def, simplified])
  have a3: "batchManager ?a3 = \<lparr>batchCommands = [circleCommand (FixedVector2_ZERO, 3, filled)],
      maxBatchSize = 2, batchingEnabled = True, batchedDrawCallCount = 2\<rparr>"
    by (simp add: addCircle_def [of ?X _ _ _ ?a2] addCommand_def Let_def a2 circleCommand_def)
  have one: "length (groupCommands ?X [circleCommand (FixedVector2_ZERO, 3, filled)]) = 1"
    by (simp add: groupCommands_def)
  have e: "batchedDrawCallCount (batchManager (endBatch ?X ?a3)) = 3"
    by (simp add: endBatch_def [of ?X ?a3] Let_def a3 executeBatch_def one)
  show ?thesis
    using a3 one e by (simp add: addCircles_def)
qed

text \<open>
  Claim C2, amended. After \<open>beginBatch\<close>, let fewer than \<open>maxBatchSize\<close> circles be added
  by \<open>addCircle\<close>, using exactly two styles \<open>s1\<close> and \<open>s2\<close> with different serialisations,
  in any order, \<open>s1\<close> being the style of the first circle. Adding them draws nothing and
  leaves them in the buffer; \<open>groupCommands\<close> then yields exactly two groups, the group
  of \<open>s1\<close> first, each holding its commands in arrival order; \<open>endBatch\<close> draws the
  circles of \<open>s1\<close> and then those of \<open>s2\<close>, each in arrival order, and leaves the counter
  of batched draw calls at two.
\<close>

theorem two_circle_styles_two_groups:
  assumes small: "of_nat (length (c1 # cs)) < maxBatchSize (batchManager r0)"
    and first: "snd (snd c1) = s1"
    and styles: "\<forall>c \<in> set cs. snd (snd c) = s1 \<or> snd (snd c) = s2"
    and second: "\<exists>c \<in> set cs. snd (snd c) = s2"
    and keys: "stringify X (ShapeSt s1) \<noteq> stringify X (ShapeSt s2)"
  shows "ctx (addCircles X (c1 # cs) (beginBatch r0)) = ctx r0
       \<and> styleManager (addCircles X (c1 # cs) (beginBatch r0)) = styleManager r0
       \<and> batchCommands (batchManager (addCircles X (c1 # cs) (beginBatch r0))) =
           map circleCommand (c1 # cs)
       \<and> groupCommands X (batchCommands (batchManager (addCircles X (c1 # cs) (beginBatch r0)))) =
           [\<lparr>grp_type = K_circle, grp_style = ShapeSt s1,
             grp_commands = map circleCommand (filter (\<lambda>c. snd (snd c) = s1) (c1 # cs))\<rparr>,
            \<lparr>grp_type = K_circle, grp_style = ShapeSt s2,
             grp_commands = map circleCommand (filter (\<lambda>c. snd (snd c) = s2) (c1 # cs))\<rparr>]
       \<and> ctx (endBatch X (addCircles X (c1 # cs) (beginBatch r0))) =
           ctx (drawCircles X (filter (\<lambda>c. snd (snd c) = s2) (c1 # cs))
                  (drawCircles X (filter (\<lambda>c. snd (snd c) = s1) (c1 # cs))
                     (addCircles X (c1 # cs) (beginBatch r0))))
       \<and> batchedDrawCallCount (batchManager (endBatch X (addCircles X (c1 # cs) (beginBatch r0)))) = 2"
proof -
  let ?b = "beginBatch r0"
  let ?r = "addCircles X (c1 # cs) ?b"
  have pre: "batchingEnabled (batchManager ?b)"
    "of_nat (length (batchCommands (batchManager ?b)) + length (c1 # cs))
       < maxBatchSize (batchManager ?b)"
    using small by (simp_all add: beginBatch_def)
  have r: "?r = ?b\<lparr>batchManager := (batchManager ?b)
                \<lparr>batchCommands := batchCommands (batchManager ?b) @ map circleCommand (c1 # cs)\<rparr>\<rparr>"
    by (rule addCircles_buffers [OF pre])
  have enabled: "batchingEnabled (batchManager ?r)"
    by (simp only: r) (simp add: beginBatch_def)
  have buffer: "batchCommands (batchManager ?r) = map circleCommand (c1 # cs)"
    by (simp only: r) (simp add: beginBatch_def)
  have count0: "batchedDrawCallCount (batchManager ?r) = 0"
    by (simp only: r) (simp add: beginBatch_def)
  have same: "ctx ?r = ctx r0" "styleManager ?r = styleManager r0"
    by (simp_all only: r) (simp_all add: beginBatch_def)
  note main = endBatch_two_circle_styles [OF enabled buffer first styles second keys]
  have grp: "groupCommands X (batchCommands (batchManager ?r)) =
           [\<lparr>grp_type = K_circle, grp_style = ShapeSt s1,
             grp_commands = map circleCommand (filter (\<lambda>c. snd (snd c) = s1) (c1 # cs))\<rparr>,
            \<lparr>grp_type = K_circle, grp_style = ShapeSt s2,
             grp_commands = map circleCommand (filter (\<lambda>c. snd (snd c) = s2) (c1 # cs))\<rparr>]"
    using main by blast
  have fin: "endBatch X ?r =
           (drawCircles X (filter (\<lambda>c. snd (snd c) = s2) (c1 # cs))
              (drawCircles X (filter (\<lambda>c. snd (snd c) = s1) (c1 # cs)) ?r))
           \<lparr>batchManager := (batchManager ?r)
              \<lparr>batchedDrawCallCount := batchedDrawCallCount (batchManager ?r) + 2,
               batchingEnabled := False, batchCommands := []\<rparr>\<rparr>"
    using main by blast
  have c: "ctx (endBatch X ?r) =
           ctx (drawCircles X (filter (\<lambda>c. snd (snd c) = s2) (c1 # cs))
                  (drawCircles X (filter (\<lambda>c. snd (snd c) = s1) (c1 # cs)) ?r))"
    by (subst fin) simp
  have n: "batchedDrawCallCount (batchManager (endBatch X ?r)) = 2"
    by (subst fin) (simp add: count0)
  show ?thesis
    using same buffer grp c n by blast
qed

theorem two_circle_styles_two_groups_witness:
  "batchingEnabled (batchManager
     (addCircles example_externals
        [(FixedVector2_ZERO, 1, filled), (FixedVector2_ZERO, 2, outlined),
         (FixedVector2_ZERO, 3, filled)]
        (beginBatch (example_renderer DEFAULT_CANVAS_CONFIG))))
   \<and> groupCommands example_externals
       (batchCommands (batchManager
          (addCircles example_externals
             [(FixedVector2_ZERO, 1, filled), (FixedVector2_ZERO, 2, outlined),
              (FixedVector2_ZERO, 3, filled)]
             (beginBatch (example_renderer DEFAULT_CANVAS_CONFIG))))) =
       [\<lparr>grp_type = K_circle, grp_style = ShapeSt filled,
         grp_commands = [circleCommand (FixedVector2_ZERO, 1, filled),
                         circleCommand (FixedVector2_ZERO, 3, filled)]\<rparr>,
        \<lparr>grp_type = K_circle, grp_style = ShapeSt outlined,
         grp_commands = [circleCommand (FixedVector2_ZERO, 2, outlined)]\<rparr>]
   \<and> batchedDrawCallCount (batchManager
        (endBatch example_externals
           (addCircles example_externals
              [(FixedVector2_ZERO, 1, filled), (FixedVector2_ZERO, 2, outlined),
               (FixedVector2_ZERO, 3, filled)]
              (beginBatch (example_renderer DEFAULT_CANVAS_CONFIG))))) = 2"
proof -
  let ?X = example_externals
  let ?c1 = "(FixedVector2_ZERO, 1::rat, filled)"
  let ?cs = "[(FixedVector2_ZERO, 2::rat, outlined), (FixedVector2_ZERO, 3, filled)]"
  let ?e = "example_renderer DEFAULT_CANVAS_CONFIG"
  let ?r = "addCircles ?X (?c1 # ?cs) (beginBatch ?e)"
  have ne: "filled \<noteq> outlined" by (simp add: filled_def outlined_def)
  have small: "of_nat (length (?c1 # ?cs)) < maxBatchSize (batchManager ?e)"
    by (simp add: example_renderer_fields BatchManager_new_def DEFAULT_CANVAS_CONFIG_def)
  have first: "snd (snd ?c1) = filled" by simp
  have styles: "\<forall>c \<in> set ?cs. snd (snd c) = filled \<or> snd (snd c) = outlined" by simp
  have second: "\<exists>c \<in> set ?cs. snd (snd c) = outlined" by simp
  have keys: "stringify ?X (ShapeSt filled) \<noteq> stringify ?X (ShapeSt outlined)"
    by (simp add: example_externals_def filled_def outlined_def)
  note main = two_circle_styles_two_groups [OF small first styles second keys]
  have buffer: "batchCommands (batchManager ?r) = map circleCommand (?c1 # ?cs)"
    using main by blast
  have grp: "groupCommands ?X (batchCommands (batchManager ?r)) =
       [\<lparr>grp_type = K_circle, grp_style = ShapeSt filled,
         grp_commands = map circleCommand (filter (\<lambda>c. snd (snd c) = filled) (?c1 # ?cs))\<rparr>,
        \<lparr>grp_type = K_circle, grp_style = ShapeSt outlined,
         grp_commands = map circleCommand (filter (\<lambda>c. snd (snd c) = outlined) (?c1 # ?cs))\<rparr>]"
    using main by blast
  have n: "batchedDrawCallCount (batchManager (endBatch ?X ?r)) = 2"
    using main by blast
  have pre: "batchingEnabled (batchManager (beginBatch ?e))"
    "of_nat (length (batchCommands (batchManager (beginBatch ?e))) + length (?c1 # ?cs))
       < maxBatchSize (batchManager (beginBatch ?e))"
    using small by (simp_all add: beginBatch_def)
  have enabled: "batchingEnabled (batchManager ?r)"
    by (subst addCircles_buffers [OF pre]) (simp add: beginBatch_def)
  have f: "filter (\<lambda>c. snd (snd c) = filled) (?c1 # ?cs) =
      [(FixedVector2_ZERO, 1, filled), (FixedVector2_ZERO, 3, filled)]"
    "filter (\<lambda>c. snd (snd c) = outlined) (?c1 # ?cs) = [(FixedVector2_ZERO, 2, outlined)]"
    using ne by auto
  show ?thesis
    using enabled n grp unfolding f by simp
qed

section \<open>Unwinding the transform stack\<close>

lemma popTransform_positive:
  "0 < transformStackDepth r \<Longrightarrow>
     popTransform r = (ctx_call Ctx_restore r)\<lparr>transformStackDepth := transformStackDepth r - 1\<rparr>"
  by (simp add: popTransform_def BaseRenderer_popTransform_def)

lemma popTransform_surplus: "\<not> 0 < transformStackDepth r \<Longrightarrow> popTransform r = r"
  by (simp add: popTransform_def BaseRenderer_popTransform_def)

lemma popTransform_depth:
  "transformStackDepth (popTransform r) =
     (if 0 < transformStackDepth r then transformStackDepth r - 1 else transformStackDepth r)"
  by (simp add: popTransform_positive popTransform_surplus)

lemma popTransform_fields [simp]:
  "canvas (popTransform r) = canvas r" "console (popTransform r) = console r"
  "config (popTransform r) = config r" "coordinateSystem (popTransform r) = coordinateSystem r"
  "batchManager (popTransform r) = batchManager r" "canvasStats (popTransform r) = canvasStats r"
  "styleManager (popTransform r) = styleManager r"
  by (simp_all add: popTransform_def BaseRenderer_popTransform_def)

lemma unwindTransforms_fields [simp]:
  "canvas (unwindTransforms r) = canvas r \<and> console (unwindTransforms r) = console r \<and>
   config (unwindTransforms r) = config r \<and>
   coordinateSystem (unwindTransforms r) = coordinateSystem r \<and>
   batchManager (unwindTransforms r) = batchManager r \<and>
   canvasStats (unwindTransforms r) = canvasStats r \<and>
   styleManager (unwindTransforms r) = styleManager r"
proof (induction r rule: unwindTransforms.induct)
  case (1 r)
  show ?case
  proof (cases "0 < transformStackDepth r")
    case True
    with "1.IH" show ?thesis by (subst (1 2 3 4 5 6 7) unwindTransforms.simps) simp
  next
    case False
    then show ?thesis by (subst (1 2 3 4 5 6 7) unwindTransforms.simps) simp
  qed
qed

lemma unwindTransforms_depth:
  "transformStackDepth (unwindTransforms r) =
     (if 0 < transformStackDepth r then 0 else transformStackDepth r)"
proof (induction r rule: unwindTransforms.induct)
  case (1 r)
  show ?case
  proof (cases "0 < transformStackDepth r")
    case True
    with "1.IH" show ?thesis
      by (subst unwindTransforms.simps) (simp add: popTransform_depth)
  next
    case False
    then show ?thesis by (subst unwindTransforms.simps) simp
  qed
qed

lemma unwindTransforms_ctx:
  "ctx (unwindTransforms r) = ctx r @ replicate (nat (transformStackDepth r)) Ctx_restore"
proof (induction r rule: unwindTransforms.induct)
  case (1 r)
  show ?case
  proof (cases "0 < transformStackDepth r")
    case True
    then have n: "nat (transformStackDepth r) = Suc (nat (transformStackDepth r - 1))" by simp
    from True "1.IH" show ?thesis
      by (subst unwindTransforms.simps) (simp add: popTransform_positive n del: replicate_Suc, simp)
  next
    case False
    then show ?thesis by (subst unwindTransforms.simps) simp
  qed
qed

section \<open>What each call of a renderer does to the counters\<close>

lemma count_fields [simp]:
  "config (count_drawCall r) = config r" "config (count_textureBind r) = config r"
  "transformStackDepth (count_drawCall r) = transformStackDepth r"
  "transformStackDepth (count_textureBind r) = transformStackDepth r"
  "batchManager (count_drawCall r) = batchManager r"
  "batchManager (count_textureBind r) = batchManager r"
  "drawCalls (canvasStats (count_drawCall r)) = drawCalls (canvasStats r) + 1"
  "drawCalls (canvasStats (count_textureBind r)) = drawCalls (canvasStats r)"
  "batchedDrawCalls (canvasStats (count_drawCall r)) = batchedDrawCalls (canvasStats r)"
  "batchedDrawCalls (canvasStats (count_textureBind r)) = batchedDrawCalls (canvasStats r)"
  by (simp_all add: count_drawCall_def count_textureBind_def)

lemma onBeginFrame_fields [simp]:
  "config (onBeginFrame r) = config r"
  "transformStackDepth (onBeginFrame r) = 0"
  "canvasStats (onBeginFrame r) = zero_CanvasRenderStats"
  "batchManager (onBeginFrame r) = (batchManager r)\<lparr>batchedDrawCallCount := 0\<rparr>"
  by (simp_all add: onBeginFrame_def resetCanvasStats_def resetStyleChangeCount_def
      resetBatchedDrawCallCount_def applyCameraTransform_def Let_def ctx_call_def)

lemma onEndFrame_fields [simp]:
  "config (onEndFrame X r) = config r"
  "transformStackDepth (onEndFrame X r) =
     (if 0 < transformStackDepth r then 0 else transformStackDepth r)"
  "drawCalls (canvasStats (onEndFrame X r)) = drawCalls (canvasStats r)"
  "batchedDrawCalls (canvasStats (onEndFrame X r)) =
     batchedDrawCallCount (batchManager (flushBatch X r))"
  "batchManager (onEndFrame X r) = batchManager (flushBatch X r)"
  by (simp_all add: onEndFrame_def updateStatistics_def getBatchedDrawCallCount_def
      Let_def unwindTransforms_depth)

lemma onEndFrame_ctx:
  "ctx (onEndFrame X r) =
     ctx (flushBatch X r) @ replicate (nat (transformStackDepth r)) Ctx_restore @ [Ctx_restore]"
  by (simp add: onEndFrame_def updateStatistics_def Let_def unwindTransforms_ctx)

lemma onClear_raster: "raster_only r (onClear X color r)"
  by (simp add: onClear_def Let_def raster_only_def)

lemmas onClear_fields [simp] = raster_onlyD [OF onClear_raster]

lemma applyTransform_fields [simp]:
  "config (applyTransform t r) = config r"
  "transformStackDepth (applyTransform t r) = transformStackDepth r + 1"
  "drawCalls (canvasStats (applyTransform t r)) = drawCalls (canvasStats r)"
  "batchedDrawCalls (canvasStats (applyTransform t r)) = batchedDrawCalls (canvasStats r)"
  "batchManager (applyTransform t r) = batchManager r"
  by (simp_all add: applyTransform_def Let_def ctx_call_def)

lemma onDraw_fields [simp]:
  "config (onDrawLine X s e ls r) = config r"
  "config (onDrawCircle X c rad ss r) = config r"
  "config (onDrawRect X b ss r) = config r"
  "config (onDrawPolygon X vs ss r) = config r"
  "config (onDrawEllipse X b ss r) = config r"
  "config (onDrawText X t p ts r) = config r"
  "transformStackDepth (onDrawLine X s e ls r) = transformStackDepth r"
  "transformStackDepth (onDrawCircle X c rad ss r) = transformStackDepth r"
  "transformStackDepth (onDrawRect X b ss r) = transformStackDepth r"
  "transformStackDepth (onDrawPolygon X vs ss r) = transformStackDepth r"
  "transformStackDepth (onDrawEllipse X b ss r) = transformStackDepth r"
  "transformStackDepth (onDrawText X t p ts r) = transformStackDepth r"
  "drawCalls (canvasStats (onDrawLine X s e ls r)) = drawCalls (canvasStats r) + 1"
  "drawCalls (canvasStats (onDrawCircle X c rad ss r)) = drawCalls (canvasStats r) + 1"
  "drawCalls (canvasStats (onDrawRect X b ss r)) = drawCalls (canvasStats r) + 1"
  "drawCalls (canvasStats (onDrawPolygon X vs ss r)) = drawCalls (canvasStats r) + 1"
  "drawCalls (canvasStats (onDrawEllipse X b ss r)) = drawCalls (canvasStats r) + 1"
  "drawCalls (canvasStats (onDrawText X t p ts r)) = drawCalls (canvasStats r) + 1"
  by (simp_all add: onDrawLine_def onDrawCircle_def onDrawRect_def onDrawPolygon_def
      onDrawEllipse_def onDrawText_def)

lemma onDraw_immediate:
  assumes "\<not> enableBatchRendering (config r)"
  shows "onDrawLine X s e ls r = count_drawCall (drawLineImmediate X s e ls r)"
    and "onDrawCircle X c rad ss r = count_drawCall (drawCircleImmediate X c rad ss r)"
    and "onDrawRect X b ss r = count_drawCall (drawRectImmediate X b ss r)"
    and "onDrawPolygon X vs ss r = count_drawCall (drawPolygonImmediate X vs ss r)"
    and "onDrawText X t p ts r = count_drawCall (drawTextImmediate X t p ts r)"
  using assms
  by (simp_all add: onDrawLine_def onDrawCircle_def onDrawRect_def onDrawPolygon_def
      onDrawText_def)

lemma onDrawTexture_fields [simp]:
  "config (onDrawTexture tx p st r) = config r"
  "config (onDrawTextureRegion tx a b st r) = config r"
  "transformStackDepth (onDrawTexture tx p st r) = transformStackDepth r"
  "transformStackDepth (onDrawTextureRegion tx a b st r) = transformStackDepth r"
  "batchManager (onDrawTexture tx p st r) = batchManager r"
  "batchManager (onDrawTextureRegion tx a b st r) = batchManager r"
  "batchedDrawCalls (canvasStats (onDrawTexture tx p st r)) = batchedDrawCalls (canvasStats r)"
  "batchedDrawCalls (canvasStats (onDrawTextureRegion tx a b st r)) =
     batchedDrawCalls (canvasStats r)"
  "drawCalls (canvasStats (onDrawTexture tx p st r)) =
     (case tx of IsCanvasTexture _ \<Rightarrow> drawCalls (canvasStats r) + 1
      | ForeignTexture _ \<Rightarrow> drawCalls (canvasStats r))"
  "drawCalls (canvasStats (onDrawTextureRegion tx a b st r)) =
     (case tx of IsCanvasTexture _ \<Rightarrow> drawCalls (canvasStats r) + 1
      | ForeignTexture _ \<Rightarrow> drawCalls (canvasStats r))"
  by (simp_all add: onDrawTexture_def onDrawTextureRegion_def console_warn_def
      split: ITexture.split)

lemma onSetRenderState_raster: "raster_only r (onSetRenderState st r)"
  by (simp add: onSetRenderState_def applyBlendMode_def applyOpacity_def applyClipRect_def
      Let_def raster_only_def split: option.split)

lemmas onSetRenderState_fields [simp] = raster_onlyD [OF onSetRenderState_raster]

lemma onSetViewport_fields [simp]:
  "config (onSetViewport X vp r) = config r"
  "transformStackDepth (onSetViewport X vp r) = transformStackDepth r"
  "canvasStats (onSetViewport X vp r) = canvasStats r"
  "batchManager (onSetViewport X vp r) = batchManager r"
  by (simp_all add: onSetViewport_def setupCoordinateSystem_def applyHighDPIScaling_def
      Let_def ctx_call_def)

lemma setRenderTarget_fields [simp]:
  "config (setRenderTarget r) = config r"
  "transformStackDepth (setRenderTarget r) = transformStackDepth r"
  "canvasStats (setRenderTarget r) = canvasStats r"
  "batchManager (setRenderTarget r) = batchManager r"
  by (simp_all add: setRenderTarget_def console_warn_def)

lemma dispose_fields [simp]:
  "config (dispose X r) = config r"
  "transformStackDepth (dispose X r) = transformStackDepth r"
  "canvasStats (dispose X r) = canvasStats r"
  "batchManager (dispose X r) = batchManager (endBatch X r)"
  by (simp_all add: dispose_def resetCache_def)

lemma exec_config: "config (exec X r c) = config r"
  by (cases c) (simp_all add: popTransform_depth)

lemma exec_depth_nonneg:
  "0 \<le> transformStackDepth r \<Longrightarrow> 0 \<le> transformStackDepth (exec X r c)"
  by (cases c) (simp_all add: popTransform_depth)

lemma exec_drawCalls:
  "drawCalls (canvasStats (exec X r c)) = countedDrawCalls (drawCalls (canvasStats r)) c"
proof (cases c)
  case BeginFrame
  then show ?thesis by (simp add: zero_CanvasRenderStats_def)
next
  case (DrawTexture tx p st)
  then show ?thesis by (cases tx) simp_all
next
  case (DrawTextureRegion tx a b st)
  then show ?thesis by (cases tx) simp_all
qed simp_all

lemma exec_batch_idle:
  assumes "batch_idle r"
  shows "batch_idle (exec X r c)"
proof -
  from assms have off: "\<not> enableBatchRendering (config r)"
    and empty: "batchCommands (batchManager r) = []"
    and zero: "batchedDrawCallCount (batchManager r) = 0"
    and stat: "batchedDrawCalls (canvasStats r) = 0"
    by (simp_all add: batch_idle_def)
  have flush: "flushBatch X r = r" using empty by (simp add: flushBatch_def)
  have end1: "batchCommands (batchManager (endBatch X r)) = []"
    "batchedDrawCallCount (batchManager (endBatch X r)) = 0"
    using empty zero by (simp_all add: endBatch_def Let_def)
  show ?thesis
    using off empty zero stat
    by (cases c)
       (simp_all add: batch_idle_def flush end1 onDraw_immediate zero_CanvasRenderStats_def
          onDrawEllipse_def)
qed

lemma run_Nil [simp]: "run X r [] = r"
  by (simp add: run_def)

lemma run_Cons [simp]: "run X r (c # calls) = run X (exec X r c) calls"
  by (simp add: run_def)

lemma run_depth_nonneg:
  "0 \<le> transformStackDepth r \<Longrightarrow> 0 \<le> transformStackDepth (run X r calls)"
  by (induction calls arbitrary: r) (simp_all add: exec_depth_nonneg)

lemma run_drawCalls:
  "drawCalls (canvasStats (run X r calls)) = foldl countedDrawCalls (drawCalls (canvasStats r)) calls"
  by (induction calls arbitrary: r) (simp_all add: exec_drawCalls)

lemma run_batch_idle: "batch_idle r \<Longrightarrow> batch_idle (run X r calls)"
  by (induction calls arbitrary: r) (simp_all add: exec_batch_idle)

lemma run_config: "config (run X r calls) = config r"
  by (induction calls arbitrary: r) (simp_all add: exec_config)

lemma CanvasRenderer_new_depth:
  assumes "CanvasRenderer_new X cnv cfg w = Inr r"
  shows "transformStackDepth r = 0"
  using assms
  by (auto simp: CanvasRenderer_new_def setupCanvas_def setupCoordinateSystem_def
      applyHighDPIScaling_def Let_def ctx_call_def split: if_splits)

section \<open>The transform stack\<close>

text \<open>
  Claim C4. The transform-stack depth is never negative: it is zero after construction
  and stays non-negative under every sequence of calls. \<open>popTransform\<close> at depth zero
  returns the state it was given. After \<open>onBeginFrame\<close>, any sequence of calls and
  \<open>onEndFrame\<close>, the depth is zero: \<open>onEndFrame\<close> restores the raster state once for each
  transform still pushed, and once more for the frame.
\<close>

theorem transform_depth_never_negative:
  "(0 \<le> transformStackDepth r \<longrightarrow> 0 \<le> transformStackDepth (run X r calls))
   \<and> (CanvasRenderer_new X cnv cfg w = Inr r \<longrightarrow> 0 \<le> transformStackDepth (run X r calls))
   \<and> (transformStackDepth r \<le> 0 \<longrightarrow> popTransform r = r)
   \<and> transformStackDepth (onEndFrame X (run X (onBeginFrame r) calls)) = 0
   \<and> (0 \<le> transformStackDepth r \<longrightarrow>
        transformStackDepth (onEndFrame X r) = 0
      \<and> ctx (onEndFrame X r) =
          ctx (flushBatch X r) @ replicate (nat (transformStackDepth r)) Ctx_restore
            @ [Ctx_restore])"
proof -
  have a: "0 \<le> transformStackDepth (run X r calls)" if "0 \<le> transformStackDepth r"
    using that by (rule run_depth_nonneg)
  have b: "0 \<le> transformStackDepth (run X r calls)" if "CanvasRenderer_new X cnv cfg w = Inr r"
    using CanvasRenderer_new_depth [OF that] by (simp add: run_depth_nonneg)
  have c: "popTransform r = r" if "transformStackDepth r \<le> 0"
    using that by (simp add: popTransform_surplus)
  have "0 \<le> transformStackDepth (run X (onBeginFrame r) calls)"
    by (rule run_depth_nonneg) simp
  then have d: "transformStackDepth (onEndFrame X (run X (onBeginFrame r) calls)) = 0"
    by simp
  have e: "transformStackDepth (onEndFrame X r) = 0" if "0 \<le> transformStackDepth r"
    using that by simp
  show ?thesis
    using a b c d e onEndFrame_ctx by blast
qed

theorem transform_depth_never_negative_witness:
  "transformStackDepth (run example_externals (onBeginFrame (example_renderer DEFAULT_CANVAS_CONFIG))
      [PushTransform \<lparr>tr_position = FixedVector2_ZERO, tr_rotation = 0,
                      tr_scale = FixedVector2_new 1 1\<rparr>,
       PushTransform \<lparr>tr_position = FixedVector2_ZERO, tr_rotation = 0,
                      tr_scale = FixedVector2_new 1 1\<rparr>]) = 2
   \<and> transformStackDepth (onEndFrame example_externals
       (run example_externals (onBeginFrame (example_renderer DEFAULT_CANVAS_CONFIG))
          [PushTransform \<lparr>tr_position = FixedVector2_ZERO, tr_rotation = 0,
                          tr_scale = FixedVector2_new 1 1\<rparr>,
           PushTransform \<lparr>tr_position = FixedVector2_ZERO, tr_rotation = 0,
                          tr_scale = FixedVector2_new 1 1\<rparr>])) = 0
   \<and> transformStackDepth (example_renderer DEFAULT_CANVAS_CONFIG) = 0
   \<and> popTransform (example_renderer DEFAULT_CANVAS_CONFIG) = example_renderer DEFAULT_CANVAS_CONFIG
   \<and> 0 \<le> transformStackDepth
       (run example_externals (example_renderer DEFAULT_CANVAS_CONFIG)
          [PopTransform, PopTransform, BeginFrame, PopTransform])"
proof -
  let ?r0 = "example_renderer DEFAULT_CANVAS_CONFIG"
  have z: "transformStackDepth ?r0 = 0" by (simp add: example_renderer_fields)
  show ?thesis
    using transform_depth_never_negative [of ?r0 example_externals
        "[PopTransform, PopTransform, BeginFrame, PopTransform]"]
      transform_depth_never_negative [of ?r0 example_externals
        "[PushTransform \<lparr>tr_position = FixedVector2_ZERO, tr_rotation = 0,
                      tr_scale = FixedVector2_new 1 1\<rparr>,
          PushTransform \<lparr>tr_position = FixedVector2_ZERO, tr_rotation = 0,
                      tr_scale = FixedVector2_new 1 1\<rparr>]"] z
    by simp
qed

section \<open>Drawing with batch rendering disabled\<close>

text \<open>
  Claim C6. While the batch manager is not batching, \<open>addLine\<close>, \<open>addCircle\<close>, \<open>addRect\<close>,
  \<open>addPolygon\<close> and \<open>addText\<close> are the immediate drawing functions and leave the buffer
  alone; with batch rendering configured off the renderer calls the immediate drawing
  functions itself. The draw-call counter after a sequence of calls is the same for
  two renderers that start with equal counters, whatever their configuration. With
  batch rendering configured off, an empty buffer and a zero counter, the counter of
  batched draw calls is zero after every sequence of calls.
\<close>

theorem immediate_when_batching_disabled:
  "(\<not> batchingEnabled (batchManager r) \<longrightarrow>
        addLine X s e ls r = drawLineImmediate X s e ls r
      \<and> addCircle X c rad ss r = drawCircleImmediate X c rad ss r
      \<and> addRect X b ss r = drawRectImmediate X b ss r
      \<and> addPolygon X vs ss r = drawPolygonImmediate X vs ss r
      \<and> addText X t p ts r = drawTextImmediate X t p ts r
      \<and> batchManager (addLine X s e ls r) = batchManager r
      \<and> batchManager (addCircle X c rad ss r) = batchManager r
      \<and> batchManager (addRect X b ss r) = batchManager r
      \<and> batchManager (addPolygon X vs ss r) = batchManager r
      \<and> batchManager (addText X t p ts r) = batchManager r)
   \<and> (\<not> enableBatchRendering (config r) \<longrightarrow>
        onDrawLine X s e ls r = count_drawCall (drawLineImmediate X s e ls r)
      \<and> onDrawCircle X c rad ss r = count_drawCall (drawCircleImmediate X c rad ss r)
      \<and> onDrawRect X b ss r = count_drawCall (drawRectImmediate X b ss r)
      \<and> onDrawPolygon X vs ss r = count_drawCall (drawPolygonImmediate X vs ss r)
      \<and> onDrawText X t p ts r = count_drawCall (drawTextImmediate X t p ts r))
   \<and> (drawCalls (canvasStats r) = drawCalls (canvasStats r') \<longrightarrow>
        drawCalls (canvasStats (run X r calls)) = drawCalls (canvasStats (run X r' calls)))
   \<and> (batch_idle r \<longrightarrow>
        batchedDrawCallCount (batchManager (run X r calls)) = 0
      \<and> batchedDrawCalls (canvasStats (run X r calls)) = 0
      \<and> batchCommands (batchManager (run X r calls)) = [])"
proof -
  have a: "addLine X s e ls r = drawLineImmediate X s e ls r
      \<and> addCircle X c rad ss r = drawCircleImmediate X c rad ss r
      \<and> addRect X b ss r = drawRectImmediate X b ss r
      \<and> addPolygon X vs ss r = drawPolygonImmediate X vs ss r
      \<and> addText X t p ts r = drawTextImmediate X t p ts r
      \<and> batchManager (addLine X s e ls r) = batchManager r
      \<and> batchManager (addCircle X c rad ss r) = batchManager r
      \<and> batchManager (addRect X b ss r) = batchManager r
      \<and> batchManager (addPolygon X vs ss r) = batchManager r
      \<and> batchManager (addText X t p ts r) = batchManager r"
    if "\<not> batchingEnabled (batchManager r)"
    using that by (simp add: addLine_def addCircle_def addRect_def addPolygon_def addText_def)
  have b: "onDrawLine X s e ls r = count_drawCall (drawLineImmediate X s e ls r)
      \<and> onDrawCircle X c rad ss r = count_drawCall (drawCircleImmediate X c rad ss r)
      \<and> onDrawRect X b ss r = count_drawCall (drawRectImmediate X b ss r)
      \<and> onDrawPolygon X vs ss r = count_drawCall (drawPolygonImmediate X vs ss r)
      \<and> onDrawText X t p ts r = count_drawCall (drawTextImmediate X t p ts r)"
    if "\<not> enableBatchRendering (config r)"
    using onDraw_immediate [OF that] by simp
  have c: "drawCalls (canvasStats (run X r calls)) = drawCalls (canvasStats (run X r' calls))"
    if "drawCalls (canvasStats r) = drawCalls (canvasStats r')"
    using that by (simp add: run_drawCalls)
  have d: "batchedDrawCallCount (batchManager (run X r calls)) = 0
      \<and> batchedDrawCalls (canvasStats (run X r calls)) = 0
      \<and> batchCommands (batchManager (run X r calls)) = []"
    if "batch_idle r"
    using run_batch_idle [OF that, of X calls] by (simp add: batch_idle_def)
  show ?thesis
    using a b c d by blast
qed

theorem immediate_when_batching_disabled_witness:
  "batch_idle (example_renderer (DEFAULT_CANVAS_CONFIG\<lparr>enableBatchRendering := False\<rparr>))
   \<and> drawCalls (canvasStats
        (run example_externals (example_renderer (DEFAULT_CANVAS_CONFIG\<lparr>enableBatchRendering := False\<rparr>))
           [DrawLine FixedVector2_ZERO (FixedVector2_new 1 1) example_line,
            DrawCircle FixedVector2_ZERO 1 filled]))
     = drawCalls (canvasStats
        (run example_externals (example_renderer DEFAULT_CANVAS_CONFIG)
           [DrawLine FixedVector2_ZERO (FixedVector2_new 1 1) example_line,
            DrawCircle FixedVector2_ZERO 1 filled]))
   \<and> drawCalls (canvasStats
        (run example_externals (example_renderer DEFAULT_CANVAS_CONFIG)
           [DrawLine FixedVector2_ZERO (FixedVector2_new 1 1) example_line,
            DrawCircle FixedVector2_ZERO 1 filled])) = 2
   \<and> batchedDrawCallCount (batchManager
        (run example_externals (example_renderer (DEFAULT_CANVAS_CONFIG\<lparr>enableBatchRendering := False\<rparr>))
           [DrawLine FixedVector2_ZERO (FixedVector2_new 1 1) example_line,
            DrawCircle FixedVector2_ZERO 1 filled])) = 0"
proof -
  let ?off = "example_renderer (DEFAULT_CANVAS_CONFIG\<lparr>enableBatchRendering := False\<rparr>)"
  let ?on = "example_renderer DEFAULT_CANVAS_CONFIG"
  let ?calls = "[DrawLine FixedVector2_ZERO (FixedVector2_new 1 1) example_line,
            DrawCircle FixedVector2_ZERO 1 filled]"
  have idle: "batch_idle ?off"
    by (simp add: batch_idle_def example_renderer_fields BatchManager_new_def
        zero_CanvasRenderStats_def)
  have same: "drawCalls (canvasStats ?off) = drawCalls (canvasStats ?on)"
    by (simp add: example_renderer_fields)
  have two: "drawCalls (canvasStats (run example_externals ?on ?calls)) = 2"
    by (simp add: run_drawCalls example_renderer_fields zero_CanvasRenderStats_def)
  show ?thesis
    using immediate_when_batching_disabled [of ?off example_externals _ _ _ _ _ _ _ _ _ _ _ ?on ?calls]
      idle same two
    by simp
qed

end
